theory Spec2Isabelle
  imports Main "HOL-Library.AList" "HOL-Library.Sublist"
begin

section \<open>Python values\<close>

text \<open>
  The pipeline handles the values that \<^verbatim>\<open>json.loads\<close> produces: \<^verbatim>\<open>None\<close>, booleans,
  integers, floats, strings, lists and dictionaries with string keys. A dictionary is an
  association list in insertion order. Of a float the program only observes its truth
  value and its printed form, so a float is represented by these two observations.
  Strings are lists of 8-bit characters, read as the code points below 256.
\<close>

datatype pyfloat = PyFloat (float_nonzero: bool) (float_repr: string)

datatype pyval =
    PNone
  | PBool bool
  | PInt int
  | PFloat pyfloat
  | PStr string
  | PList "pyval list"
  | PDict "(string \<times> pyval) list"

type_synonym dict = "(string \<times> pyval) list"

text \<open>
  Exceptions. \<open>ValueError\<close> and \<open>RuntimeError\<close> are raised by the program with a message
  of its own; \<open>TypeError\<close>, \<open>AttributeError\<close>, \<open>KeyError\<close> and \<open>RecursionError\<close> are raised
  by the interpreter (their wording is not modelled); \<open>DigitLimit\<close> is the \<^verbatim>\<open>ValueError\<close> that
  the interpreter raises when an integer with too many digits is converted to a string;
  \<open>EnvError\<close> is any exception coming from the file system or from the client library of
  the text-generation service.
\<close>

datatype pyexc =
    ValueError string
  | RuntimeError string
  | TypeError
  | AttributeError
  | KeyError
  | RecursionError
  | DigitLimit
  | EnvError string

text \<open>
  What the conversions of values take from the interpreter that runs the program:
  \<^verbatim>\<open>sys.get_int_max_str_digits()\<close> (4300 unless it was changed; 0 for no limit); the
  number of nested lists and dictionaries that \<^verbatim>\<open>repr\<close> descends into before it raises
  \<^verbatim>\<open>RecursionError\<close>, which depends on the interpreter and on the call stack; and
  \<^verbatim>\<open>str.upper\<close>, which works on all of Unicode. The three are parameters.
\<close>

record interp =
  int_max_str_digits :: nat
  repr_depth :: nat
  str_upper :: "string \<Rightarrow> string"

definition bindE :: "('e + 'a) \<Rightarrow> ('a \<Rightarrow> 'e + 'b) \<Rightarrow> 'e + 'b" where
  "bindE m f = (case m of Inl e \<Rightarrow> Inl e | Inr x \<Rightarrow> f x)"

subsection \<open>Truth values, \<^verbatim>\<open>or\<close>, type names\<close>

fun truthy :: "pyval \<Rightarrow> bool" where
  "truthy PNone = False"
| "truthy (PBool b) = b"
| "truthy (PInt i) = (i \<noteq> 0)"
| "truthy (PFloat f) = float_nonzero f"
| "truthy (PStr s) = (s \<noteq> [])"
| "truthy (PList xs) = (xs \<noteq> [])"
| "truthy (PDict d) = (d \<noteq> [])"

definition py_or :: "pyval \<Rightarrow> pyval \<Rightarrow> pyval" where
  "py_or a b = (if truthy a then a else b)"

fun type_name :: "pyval \<Rightarrow> string" where
  "type_name PNone = ''NoneType''"
| "type_name (PBool b) = ''bool''"
| "type_name (PInt i) = ''int''"
| "type_name (PFloat f) = ''float''"
| "type_name (PStr s) = ''str''"
| "type_name (PList xs) = ''list''"
| "type_name (PDict d) = ''dict''"

fun is_str :: "pyval \<Rightarrow> bool" where
  "is_str (PStr s) = True"
| "is_str v = False"

fun is_list :: "pyval \<Rightarrow> bool" where
  "is_list (PList xs) = True"
| "is_list v = False"

fun is_dict :: "pyval \<Rightarrow> bool" where
  "is_dict (PDict d) = True"
| "is_dict v = False"

subsection \<open>Strings\<close>

text \<open>
  \<^verbatim>\<open>str.lower\<close> on the code points below 256: the 26 letters of ASCII and the 30
  letters \<open>0xC0\<close> to \<open>0xDE\<close> (without \<open>0xD7\<close>) have lower-case forms 32 higher, every
  other character is its own. \<open>upper\<close> is \<^verbatim>\<open>str.upper\<close> on the strings of code points
  below 256 other than \<open>0xB5\<close> and \<open>0xFF\<close>, whose upper-case forms lie above 255: the
  reverse of the table, and \<^verbatim>\<open>SS\<close> for \<open>0xDF\<close>. It is the \<open>str_upper\<close> of the example
  environment only; the program is modelled with the \<open>str_upper\<close> of its interpreter.
  \<^verbatim>\<open>str.strip\<close> removes the white space of \<^verbatim>\<open>str.isspace\<close> at both ends.
\<close>

definition upper_letters :: string where
  "upper_letters =
     ''ABCDEFGHIJKLMNOPQRSTUVWXYZ'' @
     [CHR 0xC0, CHR 0xC1, CHR 0xC2, CHR 0xC3, CHR 0xC4, CHR 0xC5, CHR 0xC6, CHR 0xC7,
      CHR 0xC8, CHR 0xC9, CHR 0xCA, CHR 0xCB, CHR 0xCC, CHR 0xCD, CHR 0xCE, CHR 0xCF,
      CHR 0xD0, CHR 0xD1, CHR 0xD2, CHR 0xD3, CHR 0xD4, CHR 0xD5, CHR 0xD6, CHR 0xD8,
      CHR 0xD9, CHR 0xDA, CHR 0xDB, CHR 0xDC, CHR 0xDD, CHR 0xDE]"

definition lower_letters :: string where
  "lower_letters =
     ''abcdefghijklmnopqrstuvwxyz'' @
     [CHR 0xE0, CHR 0xE1, CHR 0xE2, CHR 0xE3, CHR 0xE4, CHR 0xE5, CHR 0xE6, CHR 0xE7,
      CHR 0xE8, CHR 0xE9, CHR 0xEA, CHR 0xEB, CHR 0xEC, CHR 0xED, CHR 0xEE, CHR 0xEF,
      CHR 0xF0, CHR 0xF1, CHR 0xF2, CHR 0xF3, CHR 0xF4, CHR 0xF5, CHR 0xF6, CHR 0xF8,
      CHR 0xF9, CHR 0xFA, CHR 0xFB, CHR 0xFC, CHR 0xFD, CHR 0xFE]"

definition lower_char :: "char \<Rightarrow> char" where
  "lower_char c = (case map_of (zip upper_letters lower_letters) c of Some l \<Rightarrow> l | None \<Rightarrow> c)"

definition upper_char :: "char \<Rightarrow> string" where
  "upper_char c =
     (if c = CHR 0xDF then ''SS''
      else (case map_of (zip lower_letters upper_letters) c of Some u \<Rightarrow> [u] | None \<Rightarrow> [c]))"

definition lower :: "string \<Rightarrow> string" where
  "lower s = map lower_char s"

definition upper :: "string \<Rightarrow> string" where
  "upper s = concat (map upper_char s)"

definition whitespace :: "char list" where
  "whitespace =
     [CHR 0x09, CHR 0x0A, CHR 0x0B, CHR 0x0C, CHR 0x0D, CHR 0x1C, CHR 0x1D, CHR 0x1E,
      CHR 0x1F, CHR 0x20, CHR 0x85, CHR 0xA0]"

definition is_space :: "char \<Rightarrow> bool" where
  "is_space c = (c \<in> set whitespace)"

definition strip :: "string \<Rightarrow> string" where
  "strip s = rev (dropWhile is_space (rev (dropWhile is_space s)))"

fun py_join :: "string \<Rightarrow> string list \<Rightarrow> string" where
  "py_join sep [] = []"
| "py_join sep [x] = x"
| "py_join sep (x # y # ys) = x @ sep @ py_join sep (y # ys)"

definition quoted :: "string \<Rightarrow> string" where
  "quoted s = [CHR 0x27] @ s @ [CHR 0x27]"

subsection \<open>\<^verbatim>\<open>repr\<close> and \<^verbatim>\<open>str\<close>\<close>

fun dec :: "nat \<Rightarrow> string" where
  "dec n = (if n < 10 then [''0123456789'' ! n]
            else dec (n div 10) @ [''0123456789'' ! (n mod 10)])"

text \<open>An integer with more digits than the limit allows has no string form.\<close>

definition int_repr :: "nat \<Rightarrow> int \<Rightarrow> pyexc + string" where
  "int_repr max_digits i =
     (let digits = dec (nat (abs i))
      in if max_digits \<noteq> 0 \<and> max_digits < length digits then Inl DigitLimit
         else Inr (if i < 0 then ''-'' @ digits else digits))"

definition hex_digit :: "nat \<Rightarrow> char" where
  "hex_digit n = ''0123456789abcdef'' ! (n mod 16)"

definition printable :: "char \<Rightarrow> bool" where
  "printable c =
     (let n = (of_char c :: nat) in (32 \<le> n \<and> n < 127) \<or> (161 \<le> n \<and> n \<noteq> 173))"

definition repr_char :: "char \<Rightarrow> char \<Rightarrow> string" where
  "repr_char q c =
     (if c = q \<or> c = CHR 0x5C then [CHR 0x5C, c]
      else if c = CHR 0x09 then [CHR 0x5C, CHR ''t'']
      else if c = CHR 0x0A then [CHR 0x5C, CHR ''n'']
      else if c = CHR 0x0D then [CHR 0x5C, CHR ''r'']
      else if printable c then [c]
      else [CHR 0x5C, CHR ''x'', hex_digit (of_char c div 16), hex_digit (of_char c)])"

definition str_repr :: "string \<Rightarrow> string" where
  "str_repr s =
     (let q = (if CHR 0x27 \<in> set s \<and> CHR 0x22 \<notin> set s then CHR 0x22 else CHR 0x27)
      in [q] @ concat (map (repr_char q) s) @ [q])"

text \<open>
  \<^verbatim>\<open>repr\<close> with \<open>m\<close> the digit limit and \<open>n\<close> the number of nested containers it may still
  enter; the elements are converted from left to right and the first failure is raised.
\<close>

fun py_repr_at :: "nat \<Rightarrow> nat \<Rightarrow> pyval \<Rightarrow> pyexc + string"
  and py_repr_items :: "nat \<Rightarrow> nat \<Rightarrow> pyval list \<Rightarrow> pyexc + string list"
  and py_repr_entries :: "nat \<Rightarrow> nat \<Rightarrow> (string \<times> pyval) list \<Rightarrow> pyexc + string list"
where
  "py_repr_at m n PNone = Inr ''None''"
| "py_repr_at m n (PBool b) = Inr (if b then ''True'' else ''False'')"
| "py_repr_at m n (PInt i) = int_repr m i"
| "py_repr_at m n (PFloat f) = Inr (float_repr f)"
| "py_repr_at m n (PStr s) = Inr (str_repr s)"
| "py_repr_at m n (PList xs) =
     (if n = 0 then Inl RecursionError
      else (case py_repr_items m (n - 1) xs of
              Inl e \<Rightarrow> Inl e
            | Inr ss \<Rightarrow> Inr (''['' @ py_join '', '' ss @ '']'')))"
| "py_repr_at m n (PDict d) =
     (if n = 0 then Inl RecursionError
      else (case py_repr_entries m (n - 1) d of
              Inl e \<Rightarrow> Inl e
            | Inr ss \<Rightarrow> Inr (''{'' @ py_join '', '' ss @ ''}'')))"
| "py_repr_items m n [] = Inr []"
| "py_repr_items m n (x # xs) =
     (case py_repr_at m n x of
        Inl e \<Rightarrow> Inl e
      | Inr s \<Rightarrow>
          (case py_repr_items m n xs of
             Inl e \<Rightarrow> Inl e
           | Inr ss \<Rightarrow> Inr (s # ss)))"
| "py_repr_entries m n [] = Inr []"
| "py_repr_entries m n (kv # rest) =
     (case py_repr_at m n (snd kv) of
        Inl e \<Rightarrow> Inl e
      | Inr s \<Rightarrow>
          (case py_repr_entries m n rest of
             Inl e \<Rightarrow> Inl e
           | Inr ss \<Rightarrow> Inr ((str_repr (fst kv) @ '': '' @ s) # ss)))"

definition py_repr :: "interp \<Rightarrow> pyval \<Rightarrow> pyexc + string" where
  "py_repr L v = py_repr_at (int_max_str_digits L) (repr_depth L) v"

definition py_str :: "interp \<Rightarrow> pyval \<Rightarrow> pyexc + string" where
  \<comment> \<open>\<^verbatim>\<open>str(v)\<close>: a string is itself, any other value has its \<^verbatim>\<open>repr\<close>\<close>
  "py_str L v = (case v of PStr s \<Rightarrow> Inr s | _ \<Rightarrow> py_repr L v)"

subsection \<open>Dictionary and attribute access\<close>

definition py_get :: "dict \<Rightarrow> string \<Rightarrow> pyval" where
  \<comment> \<open>\<^verbatim>\<open>d.get(k)\<close>: \<^verbatim>\<open>None\<close> for a missing key\<close>
  "py_get d k = (case map_of d k of Some v \<Rightarrow> v | None \<Rightarrow> PNone)"

definition py_get_default :: "dict \<Rightarrow> string \<Rightarrow> pyval \<Rightarrow> pyval" where
  \<comment> \<open>\<^verbatim>\<open>d.get(k, default)\<close>\<close>
  "py_get_default d k dflt = (case map_of d k of Some v \<Rightarrow> v | None \<Rightarrow> dflt)"

definition setdefault :: "dict \<Rightarrow> string \<Rightarrow> pyval \<Rightarrow> dict" where
  \<comment> \<open>\<^verbatim>\<open>d.setdefault(k, v)\<close>: a new key goes to the end\<close>
  "setdefault d k v = (if k \<in> set (map fst d) then d else d @ [(k, v)])"

definition setitem :: "dict \<Rightarrow> string \<Rightarrow> pyval \<Rightarrow> dict" where
  \<comment> \<open>\<^verbatim>\<open>d[k] = v\<close>: an existing key keeps its place\<close>
  "setitem d k v = AList.update k v d"

fun py_contains :: "pyval \<Rightarrow> string \<Rightarrow> pyexc + bool" where
  \<comment> \<open>\<^verbatim>\<open>key in obj\<close> for a string \<open>key\<close>\<close>
  "py_contains (PDict d) k = Inr (k \<in> set (map fst d))"
| "py_contains (PList xs) k = Inr (PStr k \<in> set xs)"
| "py_contains (PStr s) k = Inr (sublist k s)"
| "py_contains v k = Inl TypeError"

fun py_getitem :: "pyval \<Rightarrow> string \<Rightarrow> pyexc + pyval" where
  \<comment> \<open>\<^verbatim>\<open>obj[key]\<close> for a string \<open>key\<close>\<close>
  "py_getitem (PDict d) k = (case map_of d k of Some v \<Rightarrow> Inr v | None \<Rightarrow> Inl KeyError)"
| "py_getitem v k = Inl TypeError"

fun py_iter :: "pyval \<Rightarrow> pyexc + pyval list" where
  \<comment> \<open>the elements a \<^verbatim>\<open>for\<close> loop over the value visits\<close>
  "py_iter (PList xs) = Inr xs"
| "py_iter (PStr s) = Inr (map (\<lambda>c. PStr [c]) s)"
| "py_iter (PDict d) = Inr (map (\<lambda>kv. PStr (fst kv)) d)"
| "py_iter v = Inl TypeError"

fun py_lower :: "pyval \<Rightarrow> pyexc + string" where
  \<comment> \<open>\<^verbatim>\<open>v.lower()\<close>\<close>
  "py_lower (PStr s) = Inr (lower s)"
| "py_lower v = Inl AttributeError"

fun py_strip :: "pyval \<Rightarrow> pyexc + string" where
  \<comment> \<open>\<^verbatim>\<open>v.strip()\<close>\<close>
  "py_strip (PStr s) = Inr (strip s)"
| "py_strip v = Inl AttributeError"

section \<open>Schema validator (\<^verbatim>\<open>modules/validator.py\<close>)\<close>

definition validate_summary :: "string \<Rightarrow> string \<Rightarrow> pyexc + unit" where
  "validate_summary summary code =
     (if summary = [] \<or> strip summary = [] then Inl (ValueError ''Summary is empty.'')
      else Inr ())"

fun ensure_keys :: "pyval \<Rightarrow> string list \<Rightarrow> string \<Rightarrow> pyexc + unit" where
  "ensure_keys obj [] ctx = Inr ()"
| "ensure_keys obj (key # keys) ctx =
     (case py_contains obj key of
        Inl e \<Rightarrow> Inl e
      | Inr present \<Rightarrow>
          if \<not> present
          then Inl (ValueError (ctx @ '': missing required key '' @ quoted key @ ''.''))
          else ensure_keys obj keys ctx)"

definition required_categories :: "string list" where
  "required_categories =
     [''performance'', ''error_handling'', ''logic_correctness'', ''maintainability'',
      ''security'', ''data_integrity'', ''uncertainty'']"

text \<open>The second loop of \<^verbatim>\<open>validate_classification\<close>: each required value is a list.\<close>

fun check_lists :: "pyval \<Rightarrow> string list \<Rightarrow> pyexc + unit" where
  "check_lists data [] = Inr ()"
| "check_lists data (key # keys) =
     (case py_getitem data key of
        Inl e \<Rightarrow> Inl e
      | Inr v \<Rightarrow>
          if \<not> is_list v
          then Inl (ValueError (''Classification: '' @ quoted key @ '' should be a list, got ''
                 @ ''<class '' @ quoted (type_name v) @ ''>.''))
          else check_lists data keys)"

text \<open>The third loop runs over every item of the dictionary, not only the required keys.\<close>

fun check_strings :: "interp \<Rightarrow> string \<Rightarrow> pyval list \<Rightarrow> pyexc + unit" where
  "check_strings L key [] = Inr ()"
| "check_strings L key (issue # rest) =
     (if \<not> is_str issue
      then (case py_repr L issue of
              Inl e \<Rightarrow> Inl e
            | Inr r \<Rightarrow>
                Inl (ValueError (''Classification: entry in '' @ quoted key
                       @ '' is not a string: '' @ r)))
      else check_strings L key rest)"

fun check_entries :: "interp \<Rightarrow> dict \<Rightarrow> pyexc + unit" where
  "check_entries L [] = Inr ()"
| "check_entries L ((key, issues) # rest) =
     (case py_iter issues of
        Inl e \<Rightarrow> Inl e
      | Inr xs \<Rightarrow>
          (case check_strings L key xs of
             Inl e \<Rightarrow> Inl e
           | Inr u \<Rightarrow> check_entries L rest))"

definition validate_classification :: "interp \<Rightarrow> pyval \<Rightarrow> string \<Rightarrow> pyexc + unit" where
  "validate_classification L data code =
     bindE (ensure_keys data required_categories ''Classification'') (\<lambda>u.
     bindE (check_lists data required_categories) (\<lambda>u.
       (case data of PDict d \<Rightarrow> check_entries L d | _ \<Rightarrow> Inl AttributeError)))"

definition str_list :: "pyval \<Rightarrow> bool" where
  \<comment> \<open>\<^verbatim>\<open>isinstance(v, list) and all(isinstance(x, str) for x in v)\<close>\<close>
  "str_list v = (case v of PList xs \<Rightarrow> list_all is_str xs | _ \<Rightarrow> False)"

definition validate_analysis :: "pyval \<Rightarrow> string \<Rightarrow> pyexc + unit" where
  "validate_analysis data code =
     bindE (ensure_keys data [''summary'', ''risks'', ''assumptions''] ''Analysis'') (\<lambda>u.
     bindE (py_getitem data ''summary'') (\<lambda>s.
       if \<not> is_str s then Inl (ValueError ''Analysis: 'summary' must be a string.'')
       else
     bindE (py_getitem data ''risks'') (\<lambda>r.
       if \<not> str_list r then Inl (ValueError ''Analysis: 'risks' must be a list of strings.'')
       else
     bindE (py_getitem data ''assumptions'') (\<lambda>a.
       if \<not> str_list a
       then Inl (ValueError ''Analysis: 'assumptions' must be a list of strings.'')
       else Inr ()))))"

section \<open>Aggregator, per-file step (\<^verbatim>\<open>bin/ai_plsql_review.py\<close>)\<close>

subsection \<open>Flattening a classification into issues\<close>

definition severities :: "string list" where
  "severities = [''low'', ''medium'', ''high'', ''critical'']"

text \<open>The body of the inner loop of \<^verbatim>\<open>_flatten_issues_from_classification\<close>.\<close>

definition flatten_issue :: "interp \<Rightarrow> string \<Rightarrow> pyval \<Rightarrow> pyexc + dict" where
  "flatten_issue L category issue =
     bindE (case issue of
              PDict d \<Rightarrow> Inr d
            | _ \<Rightarrow> bindE (py_str L issue) (\<lambda>s. Inr [(''message'', PStr s)])) (\<lambda>issue_dict.
     (let issue_dict = setdefault issue_dict ''category'' (PStr category)
      in case py_lower (py_or (py_get issue_dict ''severity'') (PStr ''medium'')) of
           Inl e \<Rightarrow> Inl e
         | Inr sev0 \<Rightarrow>
             (let sev = (if sev0 \<notin> set severities then ''medium'' else sev0);
                  issue_dict = setitem issue_dict ''severity'' (PStr sev);
                  issue_dict = setdefault issue_dict ''code'' (PStr (str_upper L category))
              in Inr issue_dict)))"

fun flatten_items :: "interp \<Rightarrow> string \<Rightarrow> pyval list \<Rightarrow> dict list \<Rightarrow> pyexc + dict list" where
  "flatten_items L category [] issues = Inr issues"
| "flatten_items L category (issue # rest) issues =
     (case flatten_issue L category issue of
        Inl e \<Rightarrow> Inl e
      | Inr issue_dict \<Rightarrow> flatten_items L category rest (issues @ [issue_dict]))"

fun flatten_loop :: "interp \<Rightarrow> dict \<Rightarrow> dict list \<Rightarrow> pyexc + dict list" where
  "flatten_loop L [] issues = Inr issues"
| "flatten_loop L ((category, items) # rest) issues =
     (case items of
        PList xs \<Rightarrow>
          (case flatten_items L category xs issues of
             Inl e \<Rightarrow> Inl e
           | Inr issues' \<Rightarrow> flatten_loop L rest issues')
      | _ \<Rightarrow> flatten_loop L rest issues)"

definition flatten_issues_from_classification :: "interp \<Rightarrow> dict \<Rightarrow> pyexc + dict list" where
  "flatten_issues_from_classification L classification = flatten_loop L classification []"

subsection \<open>Risk score\<close>

definition severity_weights :: "(string \<times> int) list" where
  "severity_weights = [(''low'', 5), (''medium'', 10), (''high'', 20), (''critical'', 30)]"

fun weight_of :: "pyval \<Rightarrow> pyexc + int" where
  \<comment> \<open>\<^verbatim>\<open>severity_weights.get(sev, 10)\<close>: a list or a dictionary is not hashable\<close>
  "weight_of (PStr s) = Inr (case map_of severity_weights s of Some w \<Rightarrow> w | None \<Rightarrow> 10)"
| "weight_of (PList xs) = Inl TypeError"
| "weight_of (PDict d) = Inl TypeError"
| "weight_of v = Inr 10"

fun score_issues :: "dict list \<Rightarrow> int \<Rightarrow> pyexc + int" where
  "score_issues [] score = Inr score"
| "score_issues (issue # rest) score =
     (case weight_of (py_get_default issue ''severity'' (PStr ''medium'')) of
        Inl e \<Rightarrow> Inl e
      | Inr w \<Rightarrow> score_issues rest (score + w))"

definition compute_risk_score :: "interp \<Rightarrow> dict \<Rightarrow> dict \<Rightarrow> pyexc + int" where
  "compute_risk_score L classification analysis =
     bindE (flatten_issues_from_classification L classification) (\<lambda>issues.
     bindE (score_issues issues 0) (\<lambda>score.
       (let risks = py_or (py_get analysis ''risks'') (PList []);
            score = (case risks of PList rs \<Rightarrow> score + 5 * int (length rs) | _ \<Rightarrow> score)
        in Inr (max 0 (min 100 score)))))"

subsection \<open>Checklist items and refactor suggestions\<close>

definition or_chain :: "pyval list \<Rightarrow> pyval \<Rightarrow> pyval" where
  \<comment> \<open>\<^verbatim>\<open>a or b or ... or last\<close>\<close>
  "or_chain vs last_v = foldr py_or vs last_v"

definition checklist_append :: "string list \<Rightarrow> string \<Rightarrow> string list" where
  \<comment> \<open>\<^verbatim>\<open>if label not in checklist: checklist.append(label)\<close>\<close>
  "checklist_append checklist label =
     (if label \<notin> set checklist then checklist @ [label] else checklist)"

definition item_text :: "interp \<Rightarrow> string list \<Rightarrow> pyval \<Rightarrow> pyexc + pyval" where
  \<comment> \<open>the text of a checklist item: for a mapping the first of the given fields that is
      true in a condition, else the empty string; for any other value its \<^verbatim>\<open>str\<close>\<close>
  "item_text L keys item =
     (case item of
        PDict d \<Rightarrow> Inr (or_chain (map (py_get d) keys) (PStr []))
      | _ \<Rightarrow> bindE (py_str L item) (\<lambda>s. Inr (PStr s)))"

fun review_items :: "interp \<Rightarrow> pyval list \<Rightarrow> string list \<Rightarrow> pyexc + string list" where
  "review_items L [] checklist = Inr checklist"
| "review_items L (item # rest) checklist =
     (case bindE (item_text L [''mitigation'', ''recommendation'', ''message'', ''description'']
                    item) py_strip of
        Inl e \<Rightarrow> Inl e
      | Inr text \<Rightarrow>
          if text = [] then review_items L rest checklist
          else review_items L rest (checklist_append checklist (''Review: '' @ text)))"

fun review_buckets ::
  "interp \<Rightarrow> dict \<Rightarrow> string list \<Rightarrow> string list \<Rightarrow> pyexc + string list"
where
  "review_buckets L analysis [] checklist = Inr checklist"
| "review_buckets L analysis (bucket_name # rest) checklist =
     (case py_or (py_get analysis bucket_name) (PList []) of
        PList bucket \<Rightarrow>
          (case review_items L bucket checklist of
             Inl e \<Rightarrow> Inl e
           | Inr checklist' \<Rightarrow> review_buckets L analysis rest checklist')
      | _ \<Rightarrow> review_buckets L analysis rest checklist)"

fun clarify_items :: "interp \<Rightarrow> pyval list \<Rightarrow> string list \<Rightarrow> pyexc + string list" where
  "clarify_items L [] checklist = Inr checklist"
| "clarify_items L (item # rest) checklist =
     (case bindE (item_text L [''message'', ''description''] item) py_strip of
        Inl e \<Rightarrow> Inl e
      | Inr text \<Rightarrow>
          if text = [] then clarify_items L rest checklist
          else clarify_items L rest (checklist_append checklist (''Clarify: '' @ text)))"

definition derive_checklist_items :: "interp \<Rightarrow> dict \<Rightarrow> dict \<Rightarrow> pyexc + string list" where
  "derive_checklist_items L classification analysis =
     bindE (review_buckets L analysis [''risks'', ''assumptions''] []) (\<lambda>checklist.
       (case py_or (py_get classification ''uncertainty'') (PList []) of
          PList unc \<Rightarrow> clarify_items L unc checklist
        | _ \<Rightarrow> Inr checklist))"

fun suggestion_items :: "interp \<Rightarrow> pyval list \<Rightarrow> string list \<Rightarrow> pyexc + string list" where
  "suggestion_items L [] suggestions = Inr suggestions"
| "suggestion_items L (item # rest) suggestions =
     (case py_str L item of
        Inl e \<Rightarrow> Inl e
      | Inr s \<Rightarrow>
          (let text = strip s
           in if text \<noteq> [] \<and> text \<notin> set suggestions
              then suggestion_items L rest (suggestions @ [text])
              else suggestion_items L rest suggestions))"

fun suggestion_keys ::
  "interp \<Rightarrow> dict \<Rightarrow> string list \<Rightarrow> string list \<Rightarrow> pyexc + string list"
where
  "suggestion_keys L analysis [] suggestions = Inr suggestions"
| "suggestion_keys L analysis (key # rest) suggestions =
     (case py_get analysis key of
        PList val \<Rightarrow>
          (case suggestion_items L val suggestions of
             Inl e \<Rightarrow> Inl e
           | Inr suggestions' \<Rightarrow> suggestion_keys L analysis rest suggestions')
      | _ \<Rightarrow> suggestion_keys L analysis rest suggestions)"

fun suggestion_issues :: "dict list \<Rightarrow> string list \<Rightarrow> pyexc + string list" where
  "suggestion_issues [] suggestions = Inr suggestions"
| "suggestion_issues (issue # rest) suggestions =
     (case py_strip (or_chain [py_get issue ''recommendation'', py_get issue ''suggestion'']
                       (PStr [])) of
        Inl e \<Rightarrow> Inl e
      | Inr text \<Rightarrow>
          if text \<noteq> [] \<and> text \<notin> set suggestions
          then suggestion_issues rest (suggestions @ [text])
          else suggestion_issues rest suggestions)"

definition derive_refactor_suggestions :: "interp \<Rightarrow> dict \<Rightarrow> dict \<Rightarrow> pyexc + string list" where
  "derive_refactor_suggestions L classification analysis =
     bindE (suggestion_keys L analysis
              [''suggestions'', ''refactor_suggestions'', ''improvements''] []) (\<lambda>suggestions.
     bindE (flatten_issues_from_classification L classification) (\<lambda>issues.
       suggestion_issues issues suggestions))"

section \<open>Aggregator, run-level step\<close>

text \<open>
  The dictionary that \<^verbatim>\<open>process_file\<close> returns always has the same six keys; it is a
  record, field \<open>fr_k\<close> for key \<open>k\<close>. So are a red flag (\<open>rf_k\<close>) and the run summary
  (\<open>ag_k\<close>). The time stamp of the summary is read from the clock and is a parameter.
\<close>

record file_result =
  fr_path :: string
  fr_risk_score :: int
  fr_summary :: string
  fr_issues :: "dict list"
  fr_refactor_suggestions :: "string list"
  fr_checklist_items :: "string list"

record red_flag =
  rf_file :: string
  rf_severity :: pyval
  rf_code :: pyval
  rf_message :: pyval

record run_summary =
  ag_run_id :: string
  ag_timestamp_utc :: string
  ag_scanned_files :: nat
  ag_overall_risk_score :: int
  ag_red_flags :: "red_flag list"
  ag_files :: "file_result list"
  ag_checklist :: "string list"

text \<open>
  \<^verbatim>\<open>round(s / n)\<close> for integers \<open>s\<close> and \<open>n > 0\<close>: the quotient is rounded to the
  nearest integer, a tie to the even one. The quotient is taken exactly. The source
  divides in floating point, which gives the same result as long as the sum is below
  \<open>2 ^ 53\<close> in absolute value; the risk scores that \<^verbatim>\<open>process_file\<close> returns lie between 0
  and 100, so the sums of a run stay far below. Beyond that bound the source may round
  differently or raise \<^verbatim>\<open>OverflowError\<close>; such sums are outside this model.
\<close>

definition py_round_div :: "int \<Rightarrow> int \<Rightarrow> int" where
  "py_round_div s n =
     (let q = s div n; r = s mod n
      in if 2 * r < n then q
         else if 2 * r > n then q + 1
         else if even q then q else q + 1)"

definition make_red_flag :: "file_result \<Rightarrow> dict \<Rightarrow> red_flag" where
  "make_red_flag fr issue =
     \<lparr>rf_file = fr_path fr, rf_severity = py_get issue ''severity'',
      rf_code = py_get issue ''code'', rf_message = py_get issue ''message''\<rparr>"

fun flag_issues :: "file_result \<Rightarrow> dict list \<Rightarrow> red_flag list \<Rightarrow> pyexc + red_flag list" where
  "flag_issues fr [] red_flags = Inr red_flags"
| "flag_issues fr (issue # rest) red_flags =
     (case py_lower (py_or (py_get issue ''severity'') (PStr [])) of
        Inl e \<Rightarrow> Inl e
      | Inr sev \<Rightarrow>
          if sev \<in> set [''high'', ''critical'']
          then flag_issues fr rest (red_flags @ [make_red_flag fr issue])
          else flag_issues fr rest red_flags)"

fun merge_checklist :: "string list \<Rightarrow> string list \<Rightarrow> string list" where
  "merge_checklist [] checklist = checklist"
| "merge_checklist (item # rest) checklist =
     (if item \<notin> set checklist then merge_checklist rest (checklist @ [item])
      else merge_checklist rest checklist)"

fun aggregate_loop ::
  "file_result list \<Rightarrow> red_flag list \<Rightarrow> string list \<Rightarrow> pyexc + (red_flag list \<times> string list)"
where
  "aggregate_loop [] red_flags checklist = Inr (red_flags, checklist)"
| "aggregate_loop (fr # rest) red_flags checklist =
     (case flag_issues fr (fr_issues fr) red_flags of
        Inl e \<Rightarrow> Inl e
      | Inr red_flags' \<Rightarrow>
          aggregate_loop rest red_flags' (merge_checklist (fr_checklist_items fr) checklist))"

definition aggregate_results :: "string \<Rightarrow> string \<Rightarrow> file_result list \<Rightarrow> pyexc + run_summary" where
  "aggregate_results run_id now file_results =
     (let scanned_files = length file_results;
          overall_risk =
            (if scanned_files = 0 then 0
             else py_round_div (sum_list (map fr_risk_score file_results)) (int scanned_files))
      in case aggregate_loop file_results [] [] of
           Inl e \<Rightarrow> Inl e
         | Inr (red_flags, checklist) \<Rightarrow>
             Inr \<lparr>ag_run_id = run_id, ag_timestamp_utc = now, ag_scanned_files = scanned_files,
                  ag_overall_risk_score = overall_risk, ag_red_flags = red_flags,
                  ag_files = file_results, ag_checklist = checklist\<rparr>)"

section \<open>Environment and effects\<close>

text \<open>
  What the program does to the outside world is a trace of events, in order: a request
  sent to the text-generation service, a directory created, a file written (with what is
  written), and each attempt to parse a reply with \<^verbatim>\<open>json.loads\<close>. Console output is not
  part of the trace. A path is the list of its components.
\<close>

type_synonym path = "string list"

record flags =
  fl_model :: "string option"
  no_markdown :: bool
  no_classification :: bool
  no_analysis :: bool
  refactor :: bool

text \<open>
  The run logger of \<^verbatim>\<open>modules/run_logger.py\<close>: its steps (name, status) and its outputs
  (kind, path). Time stamps and SHA-256 digests are left out.
\<close>

record run_logger =
  input_file :: string
  rl_model :: "string option"
  rl_flags :: flags
  steps :: "(string \<times> string) list"
  outputs :: "(string \<times> string) list"

text \<open>
  What a written file holds is named by the value that is serialised and the function
  that serialises it; the bytes themselves are not computed.
\<close>

datatype content =
    PlainText string
  | JsonText pyval
  | ReportMarkdown string string dict dict
  | RunLogJson run_logger
  | IndexJson run_logger string
  | SummaryJson run_summary
  | SummaryMarkdown run_summary

datatype event =
    LlmRequest string string string
  | JsonParse string
  | MakeDirs path
  | WriteFile path content

type_synonym trace = "event list"

type_synonym 'a io = "trace \<Rightarrow> (pyexc + 'a) \<times> trace"

definition returnIO :: "'a \<Rightarrow> 'a io" where
  "returnIO x tr = (Inr x, tr)"

definition raiseIO :: "pyexc \<Rightarrow> 'a io" where
  "raiseIO e tr = (Inl e, tr)"

definition liftE :: "pyexc + 'a \<Rightarrow> 'a io" where
  "liftE r tr = (r, tr)"

definition emit :: "event \<Rightarrow> unit io" where
  "emit ev tr = (Inr (), tr @ [ev])"

definition bindIO :: "'a io \<Rightarrow> ('a \<Rightarrow> 'b io) \<Rightarrow> 'b io" where
  "bindIO m f tr = (case m tr of (Inl e, tr') \<Rightarrow> (Inl e, tr') | (Inr x, tr') \<Rightarrow> f x tr')"

text \<open>
  The fixed wording of the prompt templates is a parameter: for each builder the system
  prompt and the part of the user template that stands before the inserted text.
\<close>

record prompt_texts =
  summary_system :: string
  summary_head :: string
  classification_system :: string
  classification_head :: string
  analysis_system :: string
  analysis_head :: string
  refactor_system :: string
  refactor_head :: string
  correction_system :: string
  correction_head :: string

text \<open>
  The environment: the files that can be read, the credentials and the replies of the
  service, \<^verbatim>\<open>json.loads\<close>, the file system queries of \<^verbatim>\<open>main\<close> and the clock. An
  answer of the environment may depend on everything that happened before (the trace).
  \<^verbatim>\<open>json.loads\<close> returns a value, raises \<^verbatim>\<open>JSONDecodeError\<close> (with its text), or raises
  another exception: \<^verbatim>\<open>RecursionError\<close> on text nested too deeply, a plain
  \<^verbatim>\<open>ValueError\<close> on a number with too many digits.
\<close>

datatype parse_result =
    Parsed pyval
  | DecodeError string
  | ParseRaised pyexc

record env =
  texts :: prompt_texts
  read_text :: "trace \<Rightarrow> path \<Rightarrow> pyexc + string"
  api_key :: string
  default_model :: string
  llm_reply :: "trace \<Rightarrow> string \<Rightarrow> string \<Rightarrow> string \<Rightarrow> pyexc + string option"
  json_loads :: "string \<Rightarrow> parse_result"
  interpreter :: interp
  resolve :: "string \<Rightarrow> path"
  path_exists :: "path \<Rightarrow> bool"
  discover_files :: "path \<Rightarrow> string \<Rightarrow> path list"
  utcnow_compact :: "trace \<Rightarrow> string"
  utcnow_iso :: "trace \<Rightarrow> string"

subsection \<open>Prompt builders (\<^verbatim>\<open>modules/prompts.py\<close>)\<close>

definition newline :: string where
  "newline = [CHR 0x0A]"

definition ANALYSIS_JSON_TEMPLATE :: string where
  \<open>ANALYSIS_JSON_TEMPLATE =
     py_join newline
       [''{'',
        ''  "summary": "string",'',
        ''  "risks": ["string"],'',
        ''  "assumptions": ["string"]'',
        ''}'']\<close>

definition CLASSIFICATION_JSON_TEMPLATE :: string where
  \<open>CLASSIFICATION_JSON_TEMPLATE =
     py_join newline
       [''{'',
        ''  "performance": ["string"],'',
        ''  "error_handling": ["string"],'',
        ''  "logic_correctness": ["string"],'',
        ''  "maintainability": ["string"],'',
        ''  "security": ["string"],'',
        ''  "data_integrity": ["string"],'',
        ''  "uncertainty": ["string"]'',
        ''}'']\<close>

definition build_summary_prompt :: "prompt_texts \<Rightarrow> string \<Rightarrow> string \<times> string" where
  "build_summary_prompt t code = (summary_system t, strip (summary_head t @ code @ newline))"

definition build_classification_prompt :: "prompt_texts \<Rightarrow> string \<Rightarrow> string \<times> string" where
  "build_classification_prompt t code =
     (classification_system t, strip (classification_head t @ code @ newline))"

definition build_analysis_prompt :: "prompt_texts \<Rightarrow> string \<Rightarrow> string \<times> string" where
  "build_analysis_prompt t code = (analysis_system t, strip (analysis_head t @ code @ newline))"

definition build_refactor_prompt :: "prompt_texts \<Rightarrow> string \<Rightarrow> string \<times> string" where
  "build_refactor_prompt t code = (refactor_system t, strip (refactor_head t @ code @ newline))"

definition build_json_correction_prompt ::
  "prompt_texts \<Rightarrow> string \<Rightarrow> string \<Rightarrow> string \<times> string"
where
  "build_json_correction_prompt t raw_json template =
     (correction_system t,
      strip (correction_head t @ template @ newline @ newline @ ''[RAW_JSON]'' @ newline
             @ raw_json @ newline))"

subsection \<open>Client of the service (\<^verbatim>\<open>modules/llm_client.py\<close>)\<close>

definition model_or_default :: "env \<Rightarrow> string option \<Rightarrow> string" where
  \<comment> \<open>\<^verbatim>\<open>model or DEFAULT_MODEL\<close>\<close>
  "model_or_default e model =
     (case model of None \<Rightarrow> default_model e | Some m \<Rightarrow> if m = [] then default_model e else m)"

definition missing_api_key :: pyexc where
  "missing_api_key =
     RuntimeError (''OPENAI_API_KEY environment variable is not set. ''
       @ ''Export it before running the review script.'')"

text \<open>
  \<^verbatim>\<open>call_llm\<close>: without an API key the client cannot be made and nothing is sent; otherwise
  one request goes out, and the service answers with a text, with no text, or the call
  raises.
\<close>

definition call_llm :: "env \<Rightarrow> string \<Rightarrow> string \<Rightarrow> string option \<Rightarrow> string io" where
  "call_llm e system_prompt user_prompt model tr =
     (if api_key e = [] then (Inl missing_api_key, tr)
      else
        (let model_name = model_or_default e model;
             tr' = tr @ [LlmRequest system_prompt user_prompt model_name]
         in case llm_reply e tr system_prompt user_prompt model_name of
              Inl exc \<Rightarrow> (Inl exc, tr')
            | Inr content \<Rightarrow> (Inr (strip (case content of Some c \<Rightarrow> c | None \<Rightarrow> [])), tr')))"

section \<open>Stage executor\<close>

text \<open>
  One call of \<^verbatim>\<open>json.loads\<close>, recorded in the trace. A \<^verbatim>\<open>JSONDecodeError\<close> is handed
  to the caller, who handles it (\<open>Inl\<close> of the result); any other exception is raised.
\<close>

definition parse_json :: "env \<Rightarrow> string \<Rightarrow> (string + pyval) io" where
  "parse_json e text tr =
     (case json_loads e text of
        Parsed data \<Rightarrow> (Inr (Inr data), tr @ [JsonParse text])
      | DecodeError exc \<Rightarrow> (Inr (Inl exc), tr @ [JsonParse text])
      | ParseRaised x \<Rightarrow> (Inl x, tr @ [JsonParse text]))"

definition correct_json :: "env \<Rightarrow> string \<Rightarrow> string \<Rightarrow> string option \<Rightarrow> string io" where
  "correct_json e raw template model =
     (case build_json_correction_prompt (texts e) raw template of
        (system_prompt, user_prompt) \<Rightarrow>
          bindIO (call_llm e system_prompt user_prompt model) (\<lambda>r. returnIO (strip r)))"

definition run_summary_step :: "env \<Rightarrow> string \<Rightarrow> string option \<Rightarrow> string io" where
  "run_summary_step e code model =
     (case build_summary_prompt (texts e) code of
        (system_prompt, user_prompt) \<Rightarrow>
          bindIO (call_llm e system_prompt user_prompt model) (\<lambda>raw.
          bindIO (liftE (validate_summary raw code)) (\<lambda>u.
            returnIO (strip raw))))"

definition still_invalid :: "string \<Rightarrow> string \<Rightarrow> string \<Rightarrow> string \<Rightarrow> string \<Rightarrow> pyexc" where
  "still_invalid stage exc exc2 raw fixed_raw =
     ValueError (stage @ '' JSON still invalid after correction.'' @ newline
       @ ''Original error: '' @ exc @ newline
       @ ''Correction error: '' @ exc2 @ newline
       @ ''Original output:'' @ newline @ raw @ newline @ newline
       @ ''Corrected output:'' @ newline @ fixed_raw)"

definition run_classification_step :: "env \<Rightarrow> string \<Rightarrow> string option \<Rightarrow> dict io" where
  "run_classification_step e code model =
     (case build_classification_prompt (texts e) code of
        (system_prompt, user_prompt) \<Rightarrow>
          bindIO (call_llm e system_prompt user_prompt model) (\<lambda>r.
          (let raw = strip r in
          bindIO (parse_json e raw) (\<lambda>parsed.
          bindIO (case parsed of
                    Inr data \<Rightarrow> returnIO data
                  | Inl exc \<Rightarrow>
                      bindIO (correct_json e raw CLASSIFICATION_JSON_TEMPLATE model) (\<lambda>fixed_raw.
                      bindIO (parse_json e fixed_raw) (\<lambda>parsed2.
                        (case parsed2 of
                           Inr data \<Rightarrow> returnIO data
                         | Inl exc2 \<Rightarrow>
                             raiseIO (still_invalid ''Classification'' exc exc2 raw fixed_raw)))))
            (\<lambda>data.
          bindIO (liftE (validate_classification (interpreter e) data code)) (\<lambda>u.
            (case data of PDict d \<Rightarrow> returnIO d | _ \<Rightarrow> raiseIO TypeError)))))))"

definition run_analysis_step :: "env \<Rightarrow> string \<Rightarrow> string option \<Rightarrow> dict io" where
  "run_analysis_step e code model =
     (case build_analysis_prompt (texts e) code of
        (system_prompt, user_prompt) \<Rightarrow>
          bindIO (call_llm e system_prompt user_prompt model) (\<lambda>r.
          (let raw = strip r in
          bindIO (parse_json e raw) (\<lambda>parsed.
          bindIO (case parsed of
                    Inr data \<Rightarrow> returnIO data
                  | Inl exc \<Rightarrow>
                      bindIO (correct_json e raw ANALYSIS_JSON_TEMPLATE model) (\<lambda>fixed_raw.
                      bindIO (parse_json e fixed_raw) (\<lambda>parsed2.
                        (case parsed2 of
                           Inr data \<Rightarrow> returnIO data
                         | Inl exc2 \<Rightarrow>
                             raiseIO (still_invalid ''Analysis'' exc exc2 raw fixed_raw)))))
            (\<lambda>data.
          bindIO (liftE (validate_analysis data code)) (\<lambda>u.
            (case data of PDict d \<Rightarrow> returnIO d | _ \<Rightarrow> raiseIO TypeError)))))))"

definition run_refactor_step :: "env \<Rightarrow> string \<Rightarrow> string option \<Rightarrow> string io" where
  "run_refactor_step e code model =
     (case build_refactor_prompt (texts e) code of
        (system_prompt, user_prompt) \<Rightarrow>
          bindIO (call_llm e system_prompt user_prompt model) (\<lambda>r.
          (let raw = strip r in
           if raw = [] then raiseIO (ValueError ''Refactor output is empty.'')
           else returnIO raw)))"

section \<open>Run audit logger (\<^verbatim>\<open>modules/run_logger.py\<close>)\<close>

definition path_name :: "path \<Rightarrow> string" where
  "path_name p = (if p = [] then [] else last p)"

definition rfind :: "char \<Rightarrow> string \<Rightarrow> nat option" where
  "rfind c s =
     (case filter (\<lambda>i. s ! i = c) (rev [0..<length s]) of [] \<Rightarrow> None | i # js \<Rightarrow> Some i)"

definition path_stem :: "path \<Rightarrow> string" where
  "path_stem p =
     (let name = path_name p
      in case rfind CHR ''.'' name of
           None \<Rightarrow> name
         | Some i \<Rightarrow> if 0 < i \<and> i < length name - 1 then take i name else name)"

definition path_str :: "path \<Rightarrow> string" where
  "path_str p = (if p = [] then ''/'' else concat (map (\<lambda>c. ''/'' @ c) p))"

definition child :: "path \<Rightarrow> string \<Rightarrow> path" where
  "child d name = d @ [name]"

definition new_run_logger :: "string \<Rightarrow> string option \<Rightarrow> flags \<Rightarrow> run_logger" where
  \<comment> \<open>\<^verbatim>\<open>RunLogger(input_file=..., model=..., input_sha256=..., flags=...)\<close>\<close>
  "new_run_logger file model fl =
     \<lparr>input_file = file, rl_model = model, rl_flags = fl, steps = [], outputs = []\<rparr>"

definition log_step :: "run_logger \<Rightarrow> string \<Rightarrow> string \<Rightarrow> run_logger" where
  "log_step rl name status = rl\<lparr>steps := steps rl @ [(name, status)]\<rparr>"

definition add_output :: "run_logger \<Rightarrow> string \<Rightarrow> path \<Rightarrow> run_logger" where
  "add_output rl kind p = rl\<lparr>outputs := outputs rl @ [(kind, path_str p)]\<rparr>"

definition write_runlog :: "run_logger \<Rightarrow> path \<Rightarrow> string \<Rightarrow> path io" where
  \<comment> \<open>\<^verbatim>\<open>RunLogger.write\<close>\<close>
  "write_runlog rl log_dir base_name =
     bindIO (emit (MakeDirs log_dir)) (\<lambda>u.
     (let out_path = child log_dir (base_name @ ''_runlog.json'') in
     bindIO (emit (WriteFile out_path (RunLogJson rl))) (\<lambda>u.
       returnIO out_path)))"

definition update_global_index :: "path \<Rightarrow> path \<Rightarrow> run_logger \<Rightarrow> path io" where
  "update_global_index log_dir runlog_path rl =
     (let index_path = child log_dir ''index.json'' in
      bindIO (emit (WriteFile index_path (IndexJson rl (path_str runlog_path)))) (\<lambda>u.
        returnIO index_path))"

section \<open>Directory orchestrator\<close>

definition empty_classification :: dict where
  "empty_classification =
     [(''performance'', PList []), (''error_handling'', PList []),
      (''logic_correctness'', PList []), (''maintainability'', PList []),
      (''security'', PList []), (''data_integrity'', PList []), (''uncertainty'', PList [])]"

definition empty_analysis :: dict where
  "empty_analysis = [(''summary'', PStr []), (''risks'', PList []), (''assumptions'', PList [])]"

text \<open>
  The blocks of \<^verbatim>\<open>process_file\<close>, in the order of the source. Each takes the run logger
  and returns it updated.
\<close>

definition summary_block ::
  "env \<Rightarrow> string \<Rightarrow> string option \<Rightarrow> path \<Rightarrow> string \<Rightarrow> run_logger \<Rightarrow> (string \<times> run_logger) io"
where
  "summary_block e code model output_dir base_name rl =
     (let rl = log_step rl ''summary'' ''started'' in
      bindIO (run_summary_step e code model) (\<lambda>summary_text.
      (let rl = log_step rl ''summary'' ''success'';
           summary_json_path = child output_dir (base_name @ ''_summary.json'')
       in bindIO (emit (WriteFile summary_json_path
                          (JsonText (PDict [(''summary'', PStr summary_text)])))) (\<lambda>u.
            returnIO (summary_text, add_output rl ''summary_json'' summary_json_path)))))"

definition classification_block ::
  "env \<Rightarrow> string \<Rightarrow> string option \<Rightarrow> flags \<Rightarrow> path \<Rightarrow> string \<Rightarrow> run_logger
     \<Rightarrow> (dict \<times> run_logger) io"
where
  "classification_block e code model fl output_dir base_name rl =
     (if \<not> no_classification fl then
        (let rl = log_step rl ''classification'' ''started'' in
         bindIO (run_classification_step e code model) (\<lambda>classification.
         (let rl = log_step rl ''classification'' ''success'';
              classification_json_path = child output_dir (base_name @ ''_classification.json'')
          in bindIO (emit (WriteFile classification_json_path
                             (JsonText (PDict classification)))) (\<lambda>u.
               returnIO (classification,
                 add_output rl ''classification_json'' classification_json_path)))))
      else returnIO (empty_classification, log_step rl ''classification'' ''skipped''))"

definition analysis_block ::
  "env \<Rightarrow> string \<Rightarrow> string option \<Rightarrow> flags \<Rightarrow> path \<Rightarrow> string \<Rightarrow> run_logger
     \<Rightarrow> (dict \<times> run_logger) io"
where
  "analysis_block e code model fl output_dir base_name rl =
     (if \<not> no_analysis fl then
        (let rl = log_step rl ''analysis'' ''started'' in
         bindIO (run_analysis_step e code model) (\<lambda>analysis.
         (let rl = log_step rl ''analysis'' ''success'';
              analysis_json_path = child output_dir (base_name @ ''_analysis.json'')
          in bindIO (emit (WriteFile analysis_json_path (JsonText (PDict analysis)))) (\<lambda>u.
               returnIO (analysis, add_output rl ''analysis_json'' analysis_json_path)))))
      else returnIO (empty_analysis, log_step rl ''analysis'' ''skipped''))"

definition refactor_block ::
  "env \<Rightarrow> string \<Rightarrow> string option \<Rightarrow> flags \<Rightarrow> path \<Rightarrow> string \<Rightarrow> run_logger \<Rightarrow> run_logger io"
where
  "refactor_block e code model fl output_dir base_name rl =
     (if refactor fl then
        (let rl = log_step rl ''refactor'' ''started'' in
         bindIO (run_refactor_step e code model) (\<lambda>refactored_code.
         (let refactor_path = child output_dir (base_name @ ''_refactor.sql'') in
          bindIO (emit (WriteFile refactor_path (PlainText refactored_code))) (\<lambda>u.
            returnIO (log_step (add_output rl ''refactor_sql'' refactor_path)
                        ''refactor'' ''success'')))))
      else returnIO (log_step rl ''refactor'' ''skipped''))"

definition markdown_block ::
  "flags \<Rightarrow> path \<Rightarrow> string \<Rightarrow> string \<Rightarrow> string \<Rightarrow> dict \<Rightarrow> dict \<Rightarrow> run_logger \<Rightarrow> run_logger io"
where
  "markdown_block fl output_dir rel_name base_name summary_text classification analysis rl =
     (if \<not> no_markdown fl then
        (let report_path = child output_dir (base_name @ ''_review.md'') in
         bindIO (emit (WriteFile report_path
                         (ReportMarkdown rel_name summary_text classification analysis))) (\<lambda>u.
           returnIO (add_output rl ''markdown_report'' report_path)))
      else returnIO rl)"

text \<open>
  In a dry run \<^verbatim>\<open>process_file\<close> builds the prompts of the enabled stages and prints them,
  then returns a stub entry.
\<close>

definition dry_run_result :: "path \<Rightarrow> file_result" where
  "dry_run_result p =
     \<lparr>fr_path = path_str p, fr_risk_score = 0, fr_summary = [], fr_issues = [],
      fr_refactor_suggestions = [], fr_checklist_items = []\<rparr>"

definition process_file ::
  "env \<Rightarrow> path \<Rightarrow> path \<Rightarrow> path \<Rightarrow> string option \<Rightarrow> flags \<Rightarrow> bool \<Rightarrow> file_result io"
where
  "process_file e p output_dir log_dir model fl dry_run =
     (let rel_name = path_name p; base_name = path_stem p in
      bindIO (\<lambda>tr. (read_text e tr p, tr)) (\<lambda>code.
        if dry_run then returnIO (dry_run_result p)
        else
          (let rl = new_run_logger (path_str p) model fl in
           bindIO (emit (MakeDirs output_dir)) (\<lambda>u.
           bindIO (emit (MakeDirs log_dir)) (\<lambda>u.
           bindIO (summary_block e code model output_dir base_name rl) (\<lambda>(summary_text, rl).
           bindIO (classification_block e code model fl output_dir base_name rl)
             (\<lambda>(classification, rl).
           bindIO (analysis_block e code model fl output_dir base_name rl) (\<lambda>(analysis, rl).
           bindIO (refactor_block e code model fl output_dir base_name rl) (\<lambda>rl.
           bindIO (markdown_block fl output_dir rel_name base_name summary_text
                     classification analysis rl) (\<lambda>rl.
           bindIO (write_runlog rl log_dir base_name) (\<lambda>runlog_path.
           bindIO (update_global_index log_dir runlog_path rl) (\<lambda>index_path.
           bindIO (liftE (flatten_issues_from_classification (interpreter e) classification))
             (\<lambda>issues.
           bindIO (liftE (compute_risk_score (interpreter e) classification analysis))
             (\<lambda>risk_score.
           bindIO (liftE (derive_checklist_items (interpreter e) classification analysis))
             (\<lambda>checklist_items.
           bindIO (liftE (derive_refactor_suggestions (interpreter e) classification analysis))
             (\<lambda>refactor_suggestions.
             returnIO \<lparr>fr_path = path_str p, fr_risk_score = risk_score,
                       fr_summary = summary_text, fr_issues = issues,
                       fr_refactor_suggestions = refactor_suggestions,
                       fr_checklist_items = checklist_items\<rparr>))))))))))))))))"

definition write_summary_json :: "path \<Rightarrow> run_summary \<Rightarrow> path io" where
  "write_summary_json out_dir summary =
     bindIO (emit (MakeDirs out_dir)) (\<lambda>u.
     (let target = child out_dir ''summary.json'' in
     bindIO (emit (WriteFile target (SummaryJson summary))) (\<lambda>u.
       returnIO target)))"

text \<open>
  \<^verbatim>\<open>write_summary_md\<close> builds its lines first: it calls \<^verbatim>\<open>.upper()\<close> on the severity of
  every red flag and of every issue of every file, which raises when one is not a string.
\<close>

definition md_renderable :: "run_summary \<Rightarrow> bool" where
  "md_renderable summary =
     (list_all (\<lambda>rf. is_str (rf_severity rf)) (ag_red_flags summary) \<and>
      list_all (\<lambda>fr. list_all (\<lambda>issue. is_str (py_get_default issue ''severity'' (PStr [])))
                  (fr_issues fr)) (ag_files summary))"

definition write_summary_md :: "path \<Rightarrow> run_summary \<Rightarrow> path io" where
  "write_summary_md out_dir summary =
     (if \<not> md_renderable summary then raiseIO AttributeError
      else
        bindIO (emit (MakeDirs out_dir)) (\<lambda>u.
        (let target = child out_dir ''summary.md'' in
        bindIO (emit (WriteFile target (SummaryMarkdown summary))) (\<lambda>u.
          returnIO target))))"

record args =
  arg_path :: string
  arg_glob :: string
  arg_output_dir :: string
  arg_log_dir :: string
  arg_model :: "string option"
  arg_no_markdown :: bool
  arg_no_classification :: bool
  arg_no_analysis :: bool
  arg_refactor :: bool
  arg_dry_run :: bool
  arg_run_id :: "string option"

text \<open>The \<^verbatim>\<open>for path in files\<close> loop of \<^verbatim>\<open>main\<close>, with its \<^verbatim>\<open>try\<close>/\<^verbatim>\<open>except\<close>.\<close>

fun run_files ::
  "env \<Rightarrow> path \<Rightarrow> path \<Rightarrow> string option \<Rightarrow> flags \<Rightarrow> bool \<Rightarrow> path list \<Rightarrow> file_result list
     \<Rightarrow> trace \<Rightarrow> file_result list \<times> trace"
where
  "run_files e run_output_dir run_log_dir model fl dry_run [] results tr = (results, tr)"
| "run_files e run_output_dir run_log_dir model fl dry_run (p # rest) results tr =
     (case process_file e p run_output_dir run_log_dir model fl dry_run tr of
        (Inr file_result, tr') \<Rightarrow>
          run_files e run_output_dir run_log_dir model fl dry_run rest
            (results @ [file_result]) tr'
      | (Inl exc, tr') \<Rightarrow>
          run_files e run_output_dir run_log_dir model fl dry_run rest results tr')"

definition or_none :: "string option \<Rightarrow> string option" where
  \<comment> \<open>\<^verbatim>\<open>x or None\<close>\<close>
  "or_none x = (case x of Some s \<Rightarrow> if s = [] then None else Some s | None \<Rightarrow> None)"

definition main :: "env \<Rightarrow> args \<Rightarrow> int io" where
  "main e a tr =
     (let root = resolve e (arg_path a) in
      if \<not> path_exists e root then (Inr 1, tr)
      else
        (let output_root = resolve e (arg_output_dir a);
             log_root = resolve e (arg_log_dir a);
             run_id = (case or_none (arg_run_id a) of Some r \<Rightarrow> r | None \<Rightarrow> utcnow_compact e tr);
             run_output_dir = child output_root run_id;
             run_log_dir = child log_root run_id;
             files = discover_files e root (arg_glob a)
         in if files = [] then (Inr 0, tr)
            else
              (let model = or_none (arg_model a);
                   fl = \<lparr>fl_model = model, no_markdown = arg_no_markdown a,
                         no_classification = arg_no_classification a,
                         no_analysis = arg_no_analysis a, refactor = arg_refactor a\<rparr>
               in case run_files e run_output_dir run_log_dir model fl (arg_dry_run a) files [] tr of
                    (results, tr1) \<Rightarrow>
                      bindIO (liftE (aggregate_results run_id (utcnow_iso e tr1) results))
                        (\<lambda>summary.
                      bindIO (write_summary_json run_output_dir summary) (\<lambda>json_path.
                      bindIO (write_summary_md run_output_dir summary) (\<lambda>md_path.
                        returnIO 0))) tr1)))"

section \<open>A small environment for the examples\<close>

text \<open>
  One concrete environment, used where a statement is checked on an example. Two files
  are found. The service answers a summary request with a sentence; for the second file
  it answers the classification and analysis requests with texts that parse, for a third
  file (not among those found) the classification request only, and every other request
  with text that does not parse, also after correction. The replies \<^verbatim>\<open>CLS\<close> and
  \<^verbatim>\<open>ANA\<close> stand for the JSON texts of \<open>demo_classification\<close> and \<open>demo_analysis\<close>.
\<close>

definition demo_texts :: prompt_texts where
  "demo_texts =
     \<lparr>summary_system = ''S'', summary_head = ''summarize: '',
      classification_system = ''C'', classification_head = ''classify: '',
      analysis_system = ''A'', analysis_head = ''analyze: '',
      refactor_system = ''R'', refactor_head = ''refactor: '',
      correction_system = ''J'', correction_head = ''repair: ''\<rparr>"

definition demo_classification :: dict where
  "demo_classification =
     [(''performance'', PList []), (''error_handling'', PList []),
      (''logic_correctness'', PList []), (''maintainability'', PList []),
      (''security'', PList [PStr ''dynamic SQL'']), (''data_integrity'', PList []),
      (''uncertainty'', PList [])]"

definition demo_analysis :: dict where
  "demo_analysis =
     [(''summary'', PStr ''ok''), (''risks'', PList [PStr ''check nulls'']),
      (''assumptions'', PList [])]"

text \<open>The text of the \<^verbatim>\<open>JSONDecodeError\<close> that \<^verbatim>\<open>json.loads\<close> raises on \<^verbatim>\<open>{broken\<close>.\<close>

definition broken_error :: string where
  "broken_error =
     ''Expecting property name enclosed in double quotes: line 1 column 2 (char 1)''"

definition demo_interp :: interp where
  "demo_interp = \<lparr>int_max_str_digits = 4300, repr_depth = 900, str_upper = upper\<rparr>"

definition demo_env :: env where
  "demo_env =
     \<lparr>texts = demo_texts,
      read_text = (\<lambda>tr p. if p = [''sql'', ''b.sql''] then Inr ''good;''
                         else if p = [''sql'', ''c.sql''] then Inr ''half;''
                         else Inr ''bad;''),
      api_key = ''key'',
      default_model = ''m'',
      llm_reply = (\<lambda>tr system_prompt user_prompt model_name.
                     Inr (Some (if system_prompt = ''S'' then ''A block.''
                                else if user_prompt = ''classify: good;'' then ''CLS''
                                else if user_prompt = ''classify: half;'' then ''CLS''
                                else if user_prompt = ''analyze: good;'' then ''ANA''
                                else ''{broken''))),
      json_loads = (\<lambda>text. if text = ''CLS'' then Parsed (PDict demo_classification)
                            else if text = ''ANA'' then Parsed (PDict demo_analysis)
                            else DecodeError broken_error),
      interpreter = demo_interp,
      resolve = (\<lambda>s. [s]),
      path_exists = (\<lambda>p. True),
      discover_files = (\<lambda>root pattern. [root @ [''a.sql''], root @ [''b.sql'']]),
      utcnow_compact = (\<lambda>tr. ''T1''),
      utcnow_iso = (\<lambda>tr. ''T2'')\<rparr>"

definition demo_flags :: flags where
  "demo_flags =
     \<lparr>fl_model = None, no_markdown = False, no_classification = False, no_analysis = False,
      refactor = False\<rparr>"

definition demo_args :: "bool \<Rightarrow> args" where
  "demo_args dry =
     \<lparr>arg_path = ''sql'', arg_glob = ''**/*.sql'', arg_output_dir = ''out'',
      arg_log_dir = ''logs'', arg_model = None, arg_no_markdown = False,
      arg_no_classification = False, arg_no_analysis = False, arg_refactor = False,
      arg_dry_run = dry, arg_run_id = Some ''r1''\<rparr>"

text \<open>An integer of 4301 digits, one more than the default limit allows.\<close>

definition big_int :: int where
  "big_int = 10 ^ 4300"

text \<open>
  More environments: the reply to a correction request, and to every request whose system
  prompt is \<open>first\<close>, is a text that \<^verbatim>\<open>json.loads\<close> does not reject with
  \<^verbatim>\<open>JSONDecodeError\<close>: one hundred thousand opening brackets, on which it raises
  \<^verbatim>\<open>RecursionError\<close>. Every other reply is \<^verbatim>\<open>{broken\<close>.
\<close>

definition deep_text :: string where
  "deep_text = replicate 100000 CHR ''[''"

definition deep_env :: "string \<Rightarrow> env" where
  "deep_env first =
     demo_env
       \<lparr>llm_reply := (\<lambda>tr system_prompt user_prompt model_name.
                        Inr (Some (if system_prompt = ''J'' \<or> system_prompt = first
                                   then deep_text else ''{broken''))),
        json_loads := (\<lambda>text. if text = deep_text then ParseRaised RecursionError
                               else DecodeError broken_error)\<rparr>"

section \<open>Notions used in the statements\<close>

subsection \<open>Classification replies\<close>

definition iterates_strings :: "pyval \<Rightarrow> bool" where
  \<comment> \<open>a loop over the value runs and meets strings only\<close>
  "iterates_strings v = (case py_iter v of Inr xs \<Rightarrow> list_all is_str xs | Inl e \<Rightarrow> False)"

definition spec_classification_ok :: "dict \<Rightarrow> bool" where
  \<comment> \<open>the contract as the specification words it: the seven categories are present and
      each is a sequence of strings\<close>
  "spec_classification_ok d =
     list_all (\<lambda>k. case map_of d k of Some v \<Rightarrow> str_list v | None \<Rightarrow> False) required_categories"

subsection \<open>Issues\<close>

definition severity_readable :: "dict \<Rightarrow> bool" where
  \<comment> \<open>the severity of the issue is missing, false in a condition, or a string\<close>
  "severity_readable issue = (let v = py_get issue ''severity'' in \<not> truthy v \<or> is_str v)"

definition str_returns :: "interp \<Rightarrow> pyval \<Rightarrow> bool" where
  \<comment> \<open>\<^verbatim>\<open>str(v)\<close> returns: no integer in \<open>v\<close> has too many digits, and \<open>v\<close> is not nested too
      deeply\<close>
  "str_returns L v = (case py_str L v of Inr s \<Rightarrow> True | Inl e \<Rightarrow> False)"

definition issue_usable :: "interp \<Rightarrow> pyval \<Rightarrow> bool" where
  \<comment> \<open>a list element that flattening accepts: a mapping whose severity is readable, or
      another value whose \<^verbatim>\<open>str\<close> returns\<close>
  "issue_usable L issue =
     (case issue of PDict d \<Rightarrow> severity_readable d | _ \<Rightarrow> str_returns L issue)"

definition flattenable :: "interp \<Rightarrow> dict \<Rightarrow> bool" where
  "flattenable L classification =
     list_all (\<lambda>kv. case snd kv of PList xs \<Rightarrow> list_all (issue_usable L) xs | _ \<Rightarrow> True)
       classification"

definition the_issue :: "interp \<Rightarrow> string \<Rightarrow> pyval \<Rightarrow> dict" where
  "the_issue L category issue =
     (case flatten_issue L category issue of Inr d \<Rightarrow> d | Inl e \<Rightarrow> [])"

definition issues_of :: "interp \<Rightarrow> dict \<Rightarrow> dict list" where
  \<comment> \<open>the issues of a classification, category by category; a value that is not a list
      gives none\<close>
  "issues_of L classification =
     concat (map (\<lambda>kv. case snd kv of PList xs \<Rightarrow> map (the_issue L (fst kv)) xs | _ \<Rightarrow> [])
       classification)"

definition normalized :: "dict \<Rightarrow> bool" where
  "normalized issue =
     (case map_of issue ''severity'' of Some (PStr s) \<Rightarrow> s \<in> set severities | _ \<Rightarrow> False)"

definition severity_defaulted :: "pyval \<Rightarrow> bool" where
  \<comment> \<open>the issue has no severity field, a null or empty one, or a string that is none of
      the four severities once in lower case\<close>
  "severity_defaulted issue =
     (case issue of
        PDict d \<Rightarrow>
          (case map_of d ''severity'' of
             None \<Rightarrow> True
           | Some v \<Rightarrow> \<not> truthy v \<or> (case v of PStr s \<Rightarrow> lower s \<notin> set severities | _ \<Rightarrow> False))
      | _ \<Rightarrow> True)"

subsection \<open>Run-level aggregation\<close>

definition high_or_critical :: "dict \<Rightarrow> bool" where
  "high_or_critical issue =
     (case py_get issue ''severity'' of
        PStr s \<Rightarrow> lower s \<in> set [''high'', ''critical'']
      | _ \<Rightarrow> False)"

definition expected_red_flags :: "file_result list \<Rightarrow> red_flag list" where
  \<comment> \<open>every issue of severity high or critical, file by file, with the path of its file\<close>
  "expected_red_flags file_results =
     concat (map (\<lambda>fr. map (make_red_flag fr) (filter high_or_critical (fr_issues fr)))
       file_results)"

text \<open>Deduplication by exact text that keeps the first occurrence of each string.\<close>

primrec first_seen :: "string list \<Rightarrow> string list" where
  "first_seen [] = []"
| "first_seen (x # xs) = x # filter (\<lambda>y. y \<noteq> x) (first_seen xs)"

definition all_checklist_items :: "file_result list \<Rightarrow> string list" where
  "all_checklist_items file_results = concat (map fr_checklist_items file_results)"

definition issues_readable :: "file_result list \<Rightarrow> bool" where
  "issues_readable file_results =
     list_all (\<lambda>fr. list_all severity_readable (fr_issues fr)) file_results"

subsection \<open>Traces of a structured stage\<close>

fun is_parse :: "event \<Rightarrow> bool" where
  "is_parse (JsonParse text) = True"
| "is_parse ev = False"

definition parse_attempts :: "event list \<Rightarrow> nat" where
  "parse_attempts evs = length (filter is_parse evs)"

text \<open>
  The longest trace of a structured stage: the request of the stage, the parse of the
  reply \<open>raw\<close>, the correction request built from \<open>raw\<close> and the template of the stage,
  and the parse of the corrected reply.
\<close>

definition stage_events ::
  "prompt_texts \<Rightarrow> string \<times> string \<Rightarrow> string \<Rightarrow> string \<Rightarrow> string \<Rightarrow> string \<Rightarrow> event list"
where
  "stage_events t request template model_name raw fixed_raw =
     [LlmRequest (fst request) (snd request) model_name,
      JsonParse raw,
      LlmRequest (fst (build_json_correction_prompt t raw template))
        (snd (build_json_correction_prompt t raw template)) model_name,
      JsonParse fixed_raw]"

text \<open>
  The two structured stages have one shape: they differ in the request, the template, the
  name in the error message and the validator.
\<close>

definition structured_stage ::
  "env \<Rightarrow> string \<times> string \<Rightarrow> string \<Rightarrow> string \<Rightarrow> (pyval \<Rightarrow> pyexc + unit) \<Rightarrow> string option
     \<Rightarrow> dict io"
where
  "structured_stage e request template stage validate model =
     bindIO (call_llm e (fst request) (snd request) model) (\<lambda>r.
     bindIO (parse_json e (strip r)) (\<lambda>parsed.
     bindIO (case parsed of
               Inr data \<Rightarrow> returnIO data
             | Inl exc \<Rightarrow>
                 bindIO (correct_json e (strip r) template model) (\<lambda>fixed_raw.
                 bindIO (parse_json e fixed_raw) (\<lambda>parsed2.
                   (case parsed2 of
                      Inr data \<Rightarrow> returnIO data
                    | Inl exc2 \<Rightarrow> raiseIO (still_invalid stage exc exc2 (strip r) fixed_raw)))))
       (\<lambda>data.
     bindIO (liftE (validate data)) (\<lambda>u.
       (case data of PDict d \<Rightarrow> returnIO d | _ \<Rightarrow> raiseIO TypeError)))))"

text \<open>
  What the service answers, as \<^verbatim>\<open>call_llm\<close> returns it: to a request sent after the trace
  \<open>tr\<close>; the raw reply of a stage; and the corrected reply, which answers the correction
  request that is built from the raw reply and the template and sent after the parse of
  the raw reply.
\<close>

definition service_text :: "env \<Rightarrow> trace \<Rightarrow> string \<times> string \<Rightarrow> string option \<Rightarrow> string" where
  "service_text e tr request model =
     (case llm_reply e tr (fst request) (snd request) (model_or_default e model) of
        Inr content \<Rightarrow> strip (case content of Some c \<Rightarrow> c | None \<Rightarrow> [])
      | Inl exc \<Rightarrow> [])"

definition stage_raw :: "env \<Rightarrow> string \<times> string \<Rightarrow> string option \<Rightarrow> trace \<Rightarrow> string" where
  "stage_raw e request model tr = strip (service_text e tr request model)"

definition stage_fixed_raw ::
  "env \<Rightarrow> string \<times> string \<Rightarrow> string \<Rightarrow> string option \<Rightarrow> trace \<Rightarrow> string"
where
  "stage_fixed_raw e request template model tr =
     (let raw = stage_raw e request model tr;
          tr2 = tr @ [LlmRequest (fst request) (snd request) (model_or_default e model),
                      JsonParse raw]
      in strip (service_text e tr2 (build_json_correction_prompt (texts e) raw template) model))"

text \<open>
  Both parses of a structured stage fail with a \<^verbatim>\<open>JSONDecodeError\<close>: the service answers
  the request of the stage with \<open>r\<close>, which does not parse (error \<open>exc\<close>), and the
  correction request with \<open>r2\<close>, which does not parse either (error \<open>exc2\<close>).
\<close>

definition both_parses_fail ::
  "env \<Rightarrow> string \<times> string \<Rightarrow> string \<Rightarrow> string option \<Rightarrow> trace \<Rightarrow> string \<Rightarrow> string \<Rightarrow> string
     \<Rightarrow> string \<Rightarrow> bool"
where
  "both_parses_fail e request template model tr r exc r2 exc2 =
     (let model_name = model_or_default e model;
          tr1 = tr @ [LlmRequest (fst request) (snd request) model_name];
          c = build_json_correction_prompt (texts e) (strip r) template;
          tr2 = tr1 @ [JsonParse (strip r)]
      in call_llm e (fst request) (snd request) model tr = (Inr r, tr1) \<and>
         json_loads e (strip r) = DecodeError exc \<and>
         call_llm e (fst c) (snd c) model tr2 =
           (Inr r2, tr2 @ [LlmRequest (fst c) (snd c) model_name]) \<and>
         json_loads e (strip r2) = DecodeError exc2)"

text \<open>
  A parse of a structured stage raises an exception \<open>x\<close> that is no
  \<^verbatim>\<open>JSONDecodeError\<close>: the parse of the reply \<open>r\<close>, or, after that one failed with a
  \<^verbatim>\<open>JSONDecodeError\<close>, the parse of the corrected reply \<open>r2\<close>.
\<close>

definition first_parse_raises ::
  "env \<Rightarrow> string \<times> string \<Rightarrow> string option \<Rightarrow> trace \<Rightarrow> string \<Rightarrow> pyexc \<Rightarrow> bool"
where
  "first_parse_raises e request model tr r x =
     (call_llm e (fst request) (snd request) model tr =
        (Inr r, tr @ [LlmRequest (fst request) (snd request) (model_or_default e model)]) \<and>
      json_loads e (strip r) = ParseRaised x)"

definition second_parse_raises ::
  "env \<Rightarrow> string \<times> string \<Rightarrow> string \<Rightarrow> string option \<Rightarrow> trace \<Rightarrow> string \<Rightarrow> string \<Rightarrow> string
     \<Rightarrow> pyexc \<Rightarrow> bool"
where
  "second_parse_raises e request template model tr r exc r2 x =
     (let model_name = model_or_default e model;
          tr1 = tr @ [LlmRequest (fst request) (snd request) model_name];
          c = build_json_correction_prompt (texts e) (strip r) template;
          tr2 = tr1 @ [JsonParse (strip r)]
      in call_llm e (fst request) (snd request) model tr = (Inr r, tr1) \<and>
         json_loads e (strip r) = DecodeError exc \<and>
         call_llm e (fst c) (snd c) model tr2 =
           (Inr r2, tr2 @ [LlmRequest (fst c) (snd c) model_name]) \<and>
         json_loads e (strip r2) = ParseRaised x)"

subsection \<open>Dry runs\<close>

text \<open>
  In a dry run a file counts when it can be read. The summary of a dry run and the
  directory it is written to:
\<close>

definition readable_files :: "env \<Rightarrow> trace \<Rightarrow> path list \<Rightarrow> path list" where
  "readable_files e tr files =
     filter (\<lambda>p. case read_text e tr p of Inr code \<Rightarrow> True | Inl exc \<Rightarrow> False) files"

definition dry_run_summary :: "env \<Rightarrow> args \<Rightarrow> trace \<Rightarrow> run_summary" where
  "dry_run_summary e a tr =
     (let files = readable_files e tr (discover_files e (resolve e (arg_path a)) (arg_glob a))
      in \<lparr>ag_run_id = (case or_none (arg_run_id a) of Some r \<Rightarrow> r | None \<Rightarrow> utcnow_compact e tr),
          ag_timestamp_utc = utcnow_iso e tr,
          ag_scanned_files = length files,
          ag_overall_risk_score = 0,
          ag_red_flags = [],
          ag_files = map dry_run_result files,
          ag_checklist = []\<rparr>)"

definition run_output_dir_of :: "env \<Rightarrow> args \<Rightarrow> trace \<Rightarrow> path" where
  "run_output_dir_of e a tr =
     child (resolve e (arg_output_dir a))
       (case or_none (arg_run_id a) of Some r \<Rightarrow> r | None \<Rightarrow> utcnow_compact e tr)"

section \<open>Lemmas\<close>

subsection \<open>Dictionaries\<close>

lemma map_of_setdefault:
  "map_of (setdefault d k v) k' =
     (if k' = k \<and> k \<notin> set (map fst d) then Some v else map_of d k')"
proof (cases "k \<in> set (map fst d)")
  case True
  then show ?thesis by (simp add: setdefault_def)
next
  case False
  then have "map_of d k = None" by (simp add: map_of_eq_None_iff)
  with False show ?thesis by (simp add: setdefault_def map_add_def split: option.splits)
qed

lemma map_of_setitem: "map_of (setitem d k v) k' = (if k' = k then Some v else map_of d k')"
  by (simp add: setitem_def update_conv')

lemma py_get_setdefault_other:
  "k' \<noteq> k \<Longrightarrow> py_get (setdefault d k v) k' = py_get d k'"
  by (simp add: py_get_def map_of_setdefault)

subsection \<open>Strings\<close>

lemma lower_medium: "lower ''medium'' = ''medium''"
  by (simp add: lower_def lower_char_def upper_letters_def lower_letters_def)

lemmas str_eval = lower_def lower_char_def upper_def upper_char_def upper_letters_def
  lower_letters_def

subsection \<open>Integers with too many digits\<close>

lemma dec_nonempty: "0 < length (dec n)"
  by (subst dec.simps) (simp del: dec.simps)

lemma dec_length: "10 ^ k \<le> n \<Longrightarrow> k < length (dec n)"
proof (induction k arbitrary: n)
  case 0
  show ?case by (rule dec_nonempty)
next
  case (Suc k)
  then have "10 * 10 ^ k \<le> n" by (simp del: dec.simps)
  moreover have "(1::nat) \<le> 10 ^ k" by (simp del: dec.simps)
  ultimately have n: "\<not> n < 10" and d: "10 ^ k \<le> n div 10"
    by arith+
  have "length (dec n) = Suc (length (dec (n div 10)))"
    using n by (subst dec.simps) (simp del: dec.simps)
  with Suc.IH [OF d] show ?case by (simp del: dec.simps)
qed

lemma int_repr_big:
  assumes "m \<noteq> 0" and "10 ^ m \<le> \<bar>i\<bar>"
  shows "int_repr m i = Inl DigitLimit"
proof -
  have "int (10 ^ m) \<le> \<bar>i\<bar>" using assms(2) by (simp del: dec.simps)
  then have "10 ^ m \<le> nat \<bar>i\<bar>" by linarith
  then have "m < length (dec (nat \<bar>i\<bar>))" by (rule dec_length)
  with assms(1) show ?thesis by (simp add: int_repr_def Let_def del: dec.simps)
qed

lemma py_str_big_int: "py_str demo_interp (PInt big_int) = Inl DigitLimit"
proof -
  have "int_repr 4300 big_int = Inl DigitLimit"
  proof (rule int_repr_big)
    show "(4300::nat) \<noteq> 0" by simp
    show "10 ^ 4300 \<le> \<bar>big_int\<bar>" unfolding big_int_def by (rule abs_ge_self)
  qed
  then show ?thesis
    by (simp add: py_str_def py_repr_def demo_interp_def)
qed

subsection \<open>Flattening\<close>

lemma py_lower_usable:
  "\<not> truthy v \<or> is_str v \<Longrightarrow> \<exists>s. py_lower (py_or v (PStr ''medium'')) = Inr s"
  by (cases v) (auto simp: py_or_def)

lemma flatten_issue_dict:
  "flatten_issue L category (PDict d) =
     (case py_lower (py_or (py_get d ''severity'') (PStr ''medium'')) of
        Inl e \<Rightarrow> Inl e
      | Inr sev0 \<Rightarrow>
          Inr (setdefault
                 (setitem (setdefault d ''category'' (PStr category)) ''severity''
                    (PStr (if sev0 \<notin> set severities then ''medium'' else sev0)))
                 ''code'' (PStr (str_upper L category))))"
  by (cases "py_lower (py_or (py_get d ''severity'') (PStr ''medium''))")
     (simp_all add: flatten_issue_def bindE_def Let_def py_get_setdefault_other)

lemma flatten_issue_non_dict:
  assumes "\<not> is_dict x" and "py_str L x = Inr s"
  shows "flatten_issue L category x =
     Inr [(''message'', PStr s), (''category'', PStr category),
          (''severity'', PStr ''medium''), (''code'', PStr (str_upper L category))]"
  using assms
  by (cases x)
     (simp_all add: flatten_issue_def bindE_def Let_def setdefault_def setitem_def py_get_def
        py_or_def lower_medium severities_def)

lemma flatten_issue_str_raises:
  "\<not> is_dict x \<Longrightarrow> py_str L x = Inl e \<Longrightarrow> flatten_issue L category x = Inl e"
  by (cases x) (simp_all add: flatten_issue_def bindE_def)

lemma flatten_issue_severity_raises:
  "\<not> severity_readable d \<Longrightarrow> flatten_issue L category (PDict d) = Inl AttributeError"
  by (cases "py_get d ''severity''")
     (simp_all add: flatten_issue_dict severity_readable_def Let_def py_or_def)

lemma issue_usable_non_dict: "\<not> is_dict x \<Longrightarrow> issue_usable L x = str_returns L x"
  by (cases x) (simp_all add: issue_usable_def)

lemma flatten_issue_usable:
  assumes "issue_usable L issue"
  shows "\<exists>d. flatten_issue L category issue = Inr d"
proof (cases "is_dict issue")
  case True
  then obtain d where d: "issue = PDict d" by (cases issue) simp_all
  with assms have "\<not> truthy (py_get d ''severity'') \<or> is_str (py_get d ''severity'')"
    by (simp add: issue_usable_def severity_readable_def Let_def)
  then obtain s where "py_lower (py_or (py_get d ''severity'') (PStr ''medium'')) = Inr s"
    using py_lower_usable by blast
  then show ?thesis by (simp add: d flatten_issue_dict)
next
  case False
  with assms obtain s where "py_str L issue = Inr s"
    by (auto simp: issue_usable_non_dict str_returns_def split: sum.splits)
  with False show ?thesis by (simp add: flatten_issue_non_dict)
qed

lemma flatten_issue_unusable:
  assumes "\<not> issue_usable L issue"
  shows "\<exists>e. flatten_issue L category issue = Inl e"
proof (cases "is_dict issue")
  case True
  then obtain d where d: "issue = PDict d" by (cases issue) simp_all
  with assms have "\<not> severity_readable d" by (simp add: issue_usable_def)
  then show ?thesis by (simp add: d flatten_issue_severity_raises)
next
  case False
  with assms obtain e where "py_str L issue = Inl e"
    by (auto simp: issue_usable_non_dict str_returns_def split: sum.splits)
  with False show ?thesis by (simp add: flatten_issue_str_raises)
qed

lemma flatten_issue_iff:
  "(\<exists>d. flatten_issue L category issue = Inr d) \<longleftrightarrow> issue_usable L issue"
proof (cases "issue_usable L issue")
  case True
  then show ?thesis using flatten_issue_usable by blast
next
  case False
  then obtain e where "flatten_issue L category issue = Inl e"
    using flatten_issue_unusable by blast
  with False show ?thesis by simp
qed

lemma flatten_issue_the:
  "issue_usable L issue \<Longrightarrow> flatten_issue L category issue = Inr (the_issue L category issue)"
  using flatten_issue_usable [of L issue category] by (auto simp: the_issue_def)

lemma flatten_items_usable:
  "list_all (issue_usable L) xs \<Longrightarrow>
     flatten_items L category xs acc = Inr (acc @ map (the_issue L category) xs)"
  by (induction xs arbitrary: acc) (simp_all add: flatten_issue_the)

lemma flatten_loop_usable:
  "flattenable L c \<Longrightarrow> flatten_loop L c acc = Inr (acc @ issues_of L c)"
proof (induction c arbitrary: acc)
  case Nil
  then show ?case by (simp add: issues_of_def)
next
  case (Cons kv c)
  obtain k v where kv: "kv = (k, v)" by (cases kv)
  from Cons.prems have rest: "flattenable L c" by (simp add: flattenable_def)
  show ?case
  proof (cases v)
    case (PList xs)
    with Cons.prems kv have "list_all (issue_usable L) xs" by (simp add: flattenable_def)
    then show ?thesis
      using Cons.IH [OF rest] kv PList by (simp add: flatten_items_usable issues_of_def)
  qed (use Cons.IH [OF rest] kv in \<open>simp_all add: issues_of_def\<close>)
qed

lemma flatten_loop_skip:
  "\<not> is_list v \<Longrightarrow>
     flatten_loop L (c1 @ (k, v) # c2) acc = flatten_loop L (c1 @ c2) acc"
proof (induction c1 arbitrary: acc)
  case Nil
  then show ?case by (cases v) simp_all
next
  case (Cons kv c1)
  obtain k' v' where kv: "kv = (k', v')" by (cases kv)
  show ?case
    using Cons kv by (cases v') (simp_all split: sum.splits)
qed

lemma flatten_items_append:
  "flatten_items L k (xs @ ys) acc =
     (case flatten_items L k xs acc of Inl e \<Rightarrow> Inl e | Inr acc' \<Rightarrow> flatten_items L k ys acc')"
  by (induction xs arbitrary: acc) (simp_all split: sum.splits)

lemma flatten_loop_append:
  "flatten_loop L (c1 @ c2) acc =
     (case flatten_loop L c1 acc of Inl e \<Rightarrow> Inl e | Inr acc' \<Rightarrow> flatten_loop L c2 acc')"
proof (induction c1 arbitrary: acc)
  case Nil
  then show ?case by simp
next
  case (Cons kv c1)
  obtain k v where kv: "kv = (k, v)" by (cases kv)
  show ?case
    using Cons kv by (cases v) (simp_all split: sum.splits)
qed

lemma flatten_first_raises:
  assumes "flattenable L c1" and "list_all (issue_usable L) xs"
    and "flatten_issue L k x = Inl e"
  shows "flatten_loop L (c1 @ (k, PList (xs @ x # ys)) # c2) acc = Inl e"
  using assms
  by (simp add: flatten_loop_append flatten_loop_usable flatten_items_append
      flatten_items_usable)

lemma flatten_items_returns:
  "flatten_items L category xs acc = Inr issues \<Longrightarrow> list_all (issue_usable L) xs"
proof (induction xs arbitrary: acc)
  case Nil
  then show ?case by simp
next
  case (Cons x xs)
  from Cons.prems obtain d where d: "flatten_issue L category x = Inr d"
    and rest: "flatten_items L category xs (acc @ [d]) = Inr issues"
    by (auto split: sum.splits)
  from d have "issue_usable L x" using flatten_issue_iff by blast
  with Cons.IH [OF rest] show ?case by simp
qed

lemma flatten_loop_returns:
  "flatten_loop L c acc = Inr issues \<Longrightarrow> flattenable L c"
proof (induction c arbitrary: acc)
  case Nil
  then show ?case by (simp add: flattenable_def)
next
  case (Cons kv c)
  obtain k v where kv: "kv = (k, v)" by (cases kv)
  show ?case
  proof (cases v)
    case (PList xs)
    with Cons.prems kv obtain mid where mid: "flatten_items L k xs acc = Inr mid"
      and rest: "flatten_loop L c mid = Inr issues"
      by (auto split: sum.splits)
    from flatten_items_returns [OF mid] Cons.IH [OF rest] kv PList
    show ?thesis by (simp add: flattenable_def)
  qed (use Cons kv in \<open>auto simp: flattenable_def\<close>)
qed

lemma flatten_issue_normalized:
  "flatten_issue L category issue = Inr d \<Longrightarrow> normalized d"
  by (auto simp: flatten_issue_def bindE_def Let_def normalized_def map_of_setdefault
        map_of_setitem severities_def split: sum.splits if_splits)

lemma defaulted_usable:
  assumes "severity_defaulted issue" and "is_dict issue \<or> str_returns L issue"
  shows "issue_usable L issue"
proof (cases "is_dict issue")
  case True
  then obtain d where d: "issue = PDict d" by (cases issue) simp_all
  with assms(1) show ?thesis
    by (auto simp: issue_usable_def severity_readable_def severity_defaulted_def py_get_def
          Let_def split: option.splits pyval.splits)
next
  case False
  with assms(2) show ?thesis by (simp add: issue_usable_non_dict)
qed

lemma flatten_issue_defaulted:
  assumes "severity_defaulted issue" and "flatten_issue L category issue = Inr d"
  shows "map_of d ''severity'' = Some (PStr ''medium'')"
proof (cases "is_dict issue")
  case True
  then obtain d0 where d0: "issue = PDict d0" by (cases issue) simp_all
  from assms(2) obtain sev0 where
    sev0: "py_lower (py_or (py_get d0 ''severity'') (PStr ''medium'')) = Inr sev0"
    and d: "d = setdefault
                 (setitem (setdefault d0 ''category'' (PStr category)) ''severity''
                    (PStr (if sev0 \<notin> set severities then ''medium'' else sev0)))
                 ''code'' (PStr (str_upper L category))"
    unfolding d0 flatten_issue_dict by (auto split: sum.splits)
  from assms(1) sev0 have "sev0 \<notin> set severities \<or> sev0 = ''medium''"
    unfolding d0
    by (auto simp: severity_defaulted_def py_get_def py_or_def lower_medium
          split: option.splits pyval.splits if_splits)
  then show ?thesis
    by (auto simp: d map_of_setdefault map_of_setitem)
next
  case False
  show ?thesis
  proof (cases "py_str L issue")
    case (Inl e)
    with False assms(2) show ?thesis by (simp add: flatten_issue_str_raises)
  next
    case (Inr s)
    with False assms(2) show ?thesis by (auto simp: flatten_issue_non_dict)
  qed
qed

subsection \<open>The validator on a dictionary\<close>

lemma ensure_keys_dict:
  "ensure_keys (PDict d) keys ctx = Inr () \<longleftrightarrow> list_all (\<lambda>k. k \<in> set (map fst d)) keys"
  by (induction keys) auto

lemma check_lists_dict:
  "check_lists (PDict d) keys = Inr () \<longleftrightarrow>
     list_all (\<lambda>k. case map_of d k of Some v \<Rightarrow> is_list v | None \<Rightarrow> False) keys"
  by (induction keys) (auto split: option.splits)

lemma check_strings_iff: "check_strings L key xs = Inr () \<longleftrightarrow> list_all is_str xs"
  by (induction xs) (auto split: sum.splits)

lemma check_entries_iff:
  "check_entries L d = Inr () \<longleftrightarrow> list_all (\<lambda>kv. iterates_strings (snd kv)) d"
proof (induction d)
  case Nil
  then show ?case by simp
next
  case (Cons kv d)
  obtain k v where kv: "kv = (k, v)" by (cases kv)
  show ?case
  proof (cases "py_iter v")
    case (Inl e)
    then show ?thesis using kv by (simp add: iterates_strings_def)
  next
    case (Inr xs)
    moreover have "check_strings L k xs = Inr () \<longleftrightarrow> list_all is_str xs"
      by (rule check_strings_iff)
    ultimately show ?thesis
      using kv Cons.IH
      by (cases "check_strings L k xs") (auto simp: iterates_strings_def)
  qed
qed

lemma validate_classification_dict:
  "validate_classification L (PDict d) code = Inr () \<longleftrightarrow>
     list_all (\<lambda>k. case map_of d k of Some v \<Rightarrow> is_list v | None \<Rightarrow> False) required_categories \<and>
     list_all (\<lambda>kv. iterates_strings (snd kv)) d"
  (is "?lhs \<longleftrightarrow> ?lists \<and> ?entries")
proof -
  let ?present = "list_all (\<lambda>k. k \<in> set (map fst d)) required_categories"
  have present: "?present" if "?lists"
    using that by (force simp: list_all_iff split: option.splits dest: map_of_SomeD)
  have "?lhs \<longleftrightarrow> ?present \<and> ?lists \<and> ?entries"
    unfolding ensure_keys_dict [symmetric, where ctx = "''Classification''"]
      check_lists_dict [symmetric] check_entries_iff [symmetric, where L = L]
    by (cases "ensure_keys (PDict d) required_categories ''Classification''";
        cases "check_lists (PDict d) required_categories")
       (simp_all add: validate_classification_def bindE_def)
  with present show ?thesis by blast
qed

lemma is_list_iterates: "is_list v \<Longrightarrow> iterates_strings v = str_list v"
  by (cases v) (simp_all add: iterates_strings_def str_list_def)

lemma str_list_is_list: "str_list v \<Longrightarrow> is_list v"
  by (cases v) (simp_all add: str_list_def)

subsection \<open>What flattening returns\<close>

lemma flatten_items_acc:
  "flatten_items L category xs acc = Inr issues \<Longrightarrow>
     \<exists>new. issues = acc @ new \<and> list_all normalized new \<and>
       (\<forall>x \<in> set xs. \<forall>d. flatten_issue L category x = Inr d \<longrightarrow> d \<in> set new)"
proof (induction xs arbitrary: acc)
  case Nil
  then show ?case by simp
next
  case (Cons x xs)
  from Cons.prems obtain d where d: "flatten_issue L category x = Inr d"
    and rest: "flatten_items L category xs (acc @ [d]) = Inr issues"
    by (auto split: sum.splits)
  from Cons.IH [OF rest] obtain new where new: "issues = (acc @ [d]) @ new"
    "list_all normalized new"
    "\<forall>x \<in> set xs. \<forall>d. flatten_issue L category x = Inr d \<longrightarrow> d \<in> set new"
    by blast
  have "issues = acc @ (d # new)" using new(1) by simp
  moreover have "list_all normalized (d # new)"
    using new(2) flatten_issue_normalized [OF d] by simp
  moreover have "\<forall>y \<in> set (x # xs). \<forall>d'. flatten_issue L category y = Inr d' \<longrightarrow> d' \<in> set (d # new)"
    using new(3) d by auto
  ultimately show ?case by blast
qed

lemma flatten_loop_acc:
  "flatten_loop L c acc = Inr issues \<Longrightarrow>
     \<exists>new. issues = acc @ new \<and> list_all normalized new \<and>
       (\<forall>category xs x d. (category, PList xs) \<in> set c \<longrightarrow> x \<in> set xs \<longrightarrow>
          flatten_issue L category x = Inr d \<longrightarrow> d \<in> set new)"
proof (induction c arbitrary: acc)
  case Nil
  then show ?case by simp
next
  case (Cons kv c)
  obtain k v where kv: "kv = (k, v)" by (cases kv)
  show ?case
  proof (cases v)
    case (PList xs)
    with Cons.prems kv obtain mid where mid: "flatten_items L k xs acc = Inr mid"
      and rest: "flatten_loop L c mid = Inr issues"
      by (auto split: sum.splits)
    from flatten_items_acc [OF mid] obtain n1 where n1: "mid = acc @ n1" "list_all normalized n1"
      "\<forall>x \<in> set xs. \<forall>d. flatten_issue L k x = Inr d \<longrightarrow> d \<in> set n1"
      by blast
    from Cons.IH [OF rest] obtain n2 where n2: "issues = mid @ n2" "list_all normalized n2"
      "\<forall>category xs x d. (category, PList xs) \<in> set c \<longrightarrow> x \<in> set xs \<longrightarrow>
          flatten_issue L category x = Inr d \<longrightarrow> d \<in> set n2"
      by blast
    have "issues = acc @ (n1 @ n2)" using n1(1) n2(1) by simp
    moreover have "list_all normalized (n1 @ n2)" using n1(2) n2(2) by simp
    moreover have "\<forall>category ys x d. (category, PList ys) \<in> set (kv # c) \<longrightarrow> x \<in> set ys \<longrightarrow>
          flatten_issue L category x = Inr d \<longrightarrow> d \<in> set (n1 @ n2)"
      using n1(3) n2(3) kv PList by auto
    ultimately show ?thesis by blast
  next
    case PNone
    with Cons.prems kv have "flatten_loop L c acc = Inr issues" by simp
    from Cons.IH [OF this] show ?thesis using kv PNone by auto
  next
    case (PBool b)
    with Cons.prems kv have "flatten_loop L c acc = Inr issues" by simp
    from Cons.IH [OF this] show ?thesis using kv PBool by auto
  next
    case (PInt i)
    with Cons.prems kv have "flatten_loop L c acc = Inr issues" by simp
    from Cons.IH [OF this] show ?thesis using kv PInt by auto
  next
    case (PFloat f)
    with Cons.prems kv have "flatten_loop L c acc = Inr issues" by simp
    from Cons.IH [OF this] show ?thesis using kv PFloat by auto
  next
    case (PStr s)
    with Cons.prems kv have "flatten_loop L c acc = Inr issues" by simp
    from Cons.IH [OF this] show ?thesis using kv PStr by auto
  next
    case (PDict d)
    with Cons.prems kv have "flatten_loop L c acc = Inr issues" by simp
    from Cons.IH [OF this] show ?thesis using kv PDict by auto
  qed
qed

lemma flatten_normalized:
  "flatten_issues_from_classification L c = Inr issues \<Longrightarrow> list_all normalized issues"
  unfolding flatten_issues_from_classification_def
  by (drule flatten_loop_acc) auto

subsection \<open>Risk score\<close>

lemma weight_of_normalized: "normalized issue \<Longrightarrow>
  \<exists>w. weight_of (py_get_default issue ''severity'' (PStr ''medium'')) = Inr w"
  by (auto simp: normalized_def py_get_default_def split: option.splits pyval.splits)

lemma score_issues_normalized:
  "list_all normalized issues \<Longrightarrow> \<exists>s. score_issues issues acc = Inr s"
proof (induction issues arbitrary: acc)
  case Nil
  then show ?case by simp
next
  case (Cons i issues)
  then obtain w where "weight_of (py_get_default i ''severity'' (PStr ''medium'')) = Inr w"
    using weight_of_normalized by fastforce
  with Cons show ?case by simp
qed

lemma compute_risk_score_bounds:
  "compute_risk_score L c a = Inr s \<Longrightarrow> 0 \<le> s \<and> s \<le> 100"
  by (auto simp: compute_risk_score_def bindE_def Let_def split: sum.splits)

lemma compute_risk_score_total:
  assumes "flattenable L c"
  shows "\<exists>s. compute_risk_score L c a = Inr s"
proof -
  have f: "flatten_issues_from_classification L c = Inr (issues_of L c)"
    using flatten_loop_usable [OF assms, of "[]"]
    by (simp add: flatten_issues_from_classification_def)
  then obtain s where "score_issues (issues_of L c) 0 = Inr s"
    using score_issues_normalized flatten_normalized by blast
  with f show ?thesis by (simp add: compute_risk_score_def bindE_def Let_def)
qed

lemma compute_risk_score_returns:
  "compute_risk_score L c a = Inr s \<Longrightarrow> flattenable L c"
proof -
  assume "compute_risk_score L c a = Inr s"
  then obtain issues where "flatten_loop L c [] = Inr issues"
    by (auto simp: compute_risk_score_def flatten_issues_from_classification_def bindE_def
          split: sum.splits)
  then show ?thesis by (rule flatten_loop_returns)
qed

lemmas flat_eval = compute_risk_score_def flatten_issues_from_classification_def
  flatten_issue_def bindE_def py_or_def py_get_def py_get_default_def setdefault_def
  setitem_def severities_def severity_weights_def lower_def lower_char_def upper_letters_def
  lower_letters_def py_str_def

subsection \<open>Red flags and checklist of a run\<close>

lemma severity_test_readable:
  "severity_readable issue \<Longrightarrow>
     py_lower (py_or (py_get issue ''severity'') (PStr [])) =
       Inr (case py_get issue ''severity'' of PStr s \<Rightarrow> lower s | _ \<Rightarrow> [])"
  by (cases "py_get issue ''severity''")
     (auto simp: severity_readable_def py_or_def Let_def lower_def)

lemma flag_issues_readable:
  "list_all severity_readable issues \<Longrightarrow>
     flag_issues fr issues acc = Inr (acc @ map (make_red_flag fr) (filter high_or_critical issues))"
proof (induction issues arbitrary: acc)
  case Nil
  then show ?case by simp
next
  case (Cons i issues)
  then have r: "severity_readable i" and rest: "list_all severity_readable issues" by simp_all
  have test: "(case py_get i ''severity'' of PStr s \<Rightarrow> lower s | _ \<Rightarrow> []) \<in> set [''high'', ''critical'']
      \<longleftrightarrow> high_or_critical i"
    by (cases "py_get i ''severity''") (simp_all add: high_or_critical_def)
  show ?case
    using Cons.IH [OF rest] test by (simp add: severity_test_readable [OF r])
qed

lemma set_first_seen: "set (first_seen xs) = set xs"
  by (induction xs) auto

lemma distinct_first_seen: "distinct (first_seen xs)"
  by (induction xs) (auto simp: set_first_seen)

lemma first_seen_append:
  "first_seen (xs @ ys) = first_seen xs @ filter (\<lambda>y. y \<notin> set xs) (first_seen ys)"
proof (induction xs)
  case Nil
  then show ?case by simp
next
  case (Cons x xs)
  have "filter (\<lambda>y. y \<noteq> x) (first_seen xs @ filter (\<lambda>y. y \<notin> set xs) (first_seen ys)) =
        filter (\<lambda>y. y \<noteq> x) (first_seen xs) @ filter (\<lambda>y. y \<notin> set (x # xs)) (first_seen ys)"
    by (auto intro: filter_cong)
  with Cons show ?case by simp
qed

lemma merge_checklist_first_seen:
  "merge_checklist items checklist =
     checklist @ filter (\<lambda>y. y \<notin> set checklist) (first_seen items)"
proof (induction items arbitrary: checklist)
  case Nil
  then show ?case by simp
next
  case (Cons x items)
  show ?case
  proof (cases "x \<in> set checklist")
    case True
    then have "filter (\<lambda>y. y \<notin> set checklist) (filter (\<lambda>y. y \<noteq> x) (first_seen items)) =
               filter (\<lambda>y. y \<notin> set checklist) (first_seen items)"
      by (auto intro: filter_cong)
    with True Cons show ?thesis by simp
  next
    case False
    have "filter (\<lambda>y. y \<notin> set (checklist @ [x])) (first_seen items) =
          filter (\<lambda>y. y \<notin> set checklist) (filter (\<lambda>y. y \<noteq> x) (first_seen items))"
      by (auto intro: filter_cong)
    with False Cons show ?thesis by simp
  qed
qed

lemma merge_checklist_distinct:
  "checklist = first_seen prev \<Longrightarrow>
     merge_checklist items checklist = first_seen (prev @ items)"
  by (simp add: merge_checklist_first_seen first_seen_append set_first_seen)

lemma aggregate_loop_readable:
  "issues_readable frs \<Longrightarrow>
     aggregate_loop frs red_flags (first_seen prev) =
       Inr (red_flags @ expected_red_flags frs, first_seen (prev @ all_checklist_items frs))"
proof (induction frs arbitrary: red_flags prev)
  case Nil
  then show ?case by (simp add: expected_red_flags_def all_checklist_items_def)
next
  case (Cons fr frs)
  then have r: "list_all severity_readable (fr_issues fr)" and rest: "issues_readable frs"
    by (simp_all add: issues_readable_def)
  have m: "merge_checklist (fr_checklist_items fr) (first_seen prev) =
           first_seen (prev @ fr_checklist_items fr)"
    by (rule merge_checklist_distinct) simp
  show ?case
    using Cons.IH [OF rest, of _ "prev @ fr_checklist_items fr"]
    by (simp add: flag_issues_readable [OF r] m expected_red_flags_def all_checklist_items_def)
qed

lemma aggregate_results_readable:
  "issues_readable frs \<Longrightarrow>
     aggregate_results run_id now frs =
       Inr \<lparr>ag_run_id = run_id, ag_timestamp_utc = now, ag_scanned_files = length frs,
            ag_overall_risk_score =
              (if frs = [] then 0
               else py_round_div (sum_list (map fr_risk_score frs)) (int (length frs))),
            ag_red_flags = expected_red_flags frs, ag_files = frs,
            ag_checklist = first_seen (all_checklist_items frs)\<rparr>"
  using aggregate_loop_readable [of frs "[]" "[]"]
  by (simp add: aggregate_results_def Let_def)

lemma high_or_critical_flag:
  "high_or_critical i \<longleftrightarrow>
     (\<exists>s. rf_severity (make_red_flag fr i) = PStr s \<and> lower s \<in> set [''high'', ''critical''])"
  by (cases "py_get i ''severity''") (simp_all add: high_or_critical_def make_red_flag_def)

subsection \<open>Traces of the stages\<close>

lemma call_llm_result:
  "call_llm e s u m tr = (Inl missing_api_key, tr) \<or>
   (\<exists>exc. call_llm e s u m tr = (Inl exc, tr @ [LlmRequest s u (model_or_default e m)])) \<or>
   (\<exists>r. call_llm e s u m tr = (Inr r, tr @ [LlmRequest s u (model_or_default e m)]))"
proof (cases "api_key e = []")
  case True
  then show ?thesis by (simp add: call_llm_def)
next
  case False
  then show ?thesis
    by (cases "llm_reply e tr s u (model_or_default e m)") (simp_all add: call_llm_def Let_def)
qed

lemma call_llm_cases [case_names nokey raised reply]:
  assumes "call_llm e s u m tr = (Inl missing_api_key, tr) \<Longrightarrow> P"
    and "\<And>exc. call_llm e s u m tr = (Inl exc, tr @ [LlmRequest s u (model_or_default e m)]) \<Longrightarrow> P"
    and "\<And>r. call_llm e s u m tr = (Inr r, tr @ [LlmRequest s u (model_or_default e m)]) \<Longrightarrow> P"
  shows P
  using call_llm_result [of e s u m tr] assms by blast

lemma run_classification_step_stage:
  "run_classification_step e code model =
     structured_stage e (build_classification_prompt (texts e) code) CLASSIFICATION_JSON_TEMPLATE
       ''Classification'' (\<lambda>data. validate_classification (interpreter e) data code) model"
  by (cases "build_classification_prompt (texts e) code")
     (simp add: run_classification_step_def structured_stage_def Let_def)

lemma run_analysis_step_stage:
  "run_analysis_step e code model =
     structured_stage e (build_analysis_prompt (texts e) code) ANALYSIS_JSON_TEMPLATE
       ''Analysis'' (\<lambda>data. validate_analysis data code) model"
  by (cases "build_analysis_prompt (texts e) code")
     (simp add: run_analysis_step_def structured_stage_def Let_def)

lemmas io_defs = bindIO_def returnIO_def raiseIO_def liftE_def emit_def parse_json_def

lemma correct_json_eq:
  "correct_json e raw template model =
     bindIO (call_llm e (fst (build_json_correction_prompt (texts e) raw template))
               (snd (build_json_correction_prompt (texts e) raw template)) model)
       (\<lambda>r. returnIO (strip r))"
  by (simp add: correct_json_def case_prod_beta)

lemma call_llm_reply:
  "call_llm e s u m tr = (Inr r, tr') \<Longrightarrow> r = service_text e tr (s, u) m"
  by (auto simp: call_llm_def service_text_def Let_def split: if_splits sum.splits)

lemma structured_stage_both_fail:
  assumes "call_llm e (fst request) (snd request) model tr = (Inr r, tr1)"
    and "json_loads e (strip r) = DecodeError exc"
    and "call_llm e (fst (build_json_correction_prompt (texts e) (strip r) template))
           (snd (build_json_correction_prompt (texts e) (strip r) template)) model
           (tr1 @ [JsonParse (strip r)]) = (Inr r2, tr2)"
    and "json_loads e (strip r2) = DecodeError exc2"
  shows "structured_stage e request template stage validate model tr =
           (Inl (still_invalid stage exc exc2 (strip r) (strip r2)), tr2 @ [JsonParse (strip r2)])"
  using assms
  by (simp add: structured_stage_def correct_json_eq io_defs)

lemma structured_stage_first_raises:
  assumes "call_llm e (fst request) (snd request) model tr = (Inr r, tr1)"
    and "json_loads e (strip r) = ParseRaised x"
  shows "structured_stage e request template stage validate model tr =
           (Inl x, tr1 @ [JsonParse (strip r)])"
  using assms
  by (simp add: structured_stage_def io_defs)

lemma structured_stage_second_raises:
  assumes "call_llm e (fst request) (snd request) model tr = (Inr r, tr1)"
    and "json_loads e (strip r) = DecodeError exc"
    and "call_llm e (fst (build_json_correction_prompt (texts e) (strip r) template))
           (snd (build_json_correction_prompt (texts e) (strip r) template)) model
           (tr1 @ [JsonParse (strip r)]) = (Inr r2, tr2)"
    and "json_loads e (strip r2) = ParseRaised x"
  shows "structured_stage e request template stage validate model tr =
           (Inl x, tr2 @ [JsonParse (strip r2)])"
  using assms
  by (simp add: structured_stage_def correct_json_eq io_defs)

lemma prefix_parse_attempts:
  "prefix evs (stage_events t request template model_name raw fixed_raw) \<Longrightarrow>
     parse_attempts evs \<le> 2"
proof -
  assume "prefix evs (stage_events t request template model_name raw fixed_raw)"
  then obtain zs where "stage_events t request template model_name raw fixed_raw = evs @ zs"
    by (auto simp: prefix_def)
  moreover have "parse_attempts (stage_events t request template model_name raw fixed_raw) = 2"
    by (simp add: parse_attempts_def stage_events_def)
  ultimately have "parse_attempts (evs @ zs) = 2" by simp
  then show ?thesis by (simp add: parse_attempts_def)
qed

lemma structured_stage_trace:
  "\<exists>evs.
     snd (structured_stage e request template stage validate model tr) = tr @ evs \<and>
     prefix evs (stage_events (texts e) request template (model_or_default e model)
       (stage_raw e request model tr) (stage_fixed_raw e request template model tr))
     \<and> (length evs \<le> 2 \<or> (\<exists>exc. json_loads e (stage_raw e request model tr) = DecodeError exc))"
proof -
  let ?mn = "model_or_default e model"
  let ?s = "fst request" and ?u = "snd request"
  let ?raw = "stage_raw e request model tr"
  let ?fixed = "stage_fixed_raw e request template model tr"
  let ?cs = "fst (build_json_correction_prompt (texts e) ?raw template)"
  let ?cu = "snd (build_json_correction_prompt (texts e) ?raw template)"
  let ?tr1 = "tr @ [LlmRequest ?s ?u ?mn, JsonParse ?raw]"
  show ?thesis
  proof (cases rule: call_llm_cases [of e ?s ?u model tr])
    case nokey
    then show ?thesis
      by (simp add: structured_stage_def bindIO_def)
  next
    case (raised exc)
    then show ?thesis
      by (simp add: structured_stage_def bindIO_def stage_events_def)
  next
    case (reply r)
    from call_llm_reply [OF reply] have raw: "strip r = ?raw"
      by (simp add: stage_raw_def)
    show ?thesis
    proof (cases "json_loads e ?raw")
      case (Parsed data)
      have "snd (structured_stage e request template stage validate model tr) =
          tr @ [LlmRequest ?s ?u ?mn, JsonParse ?raw]"
        using reply Parsed raw
        by (cases "validate data"; cases data) (simp_all add: structured_stage_def io_defs)
      then show ?thesis
        by (intro exI [of _ "[LlmRequest ?s ?u ?mn, JsonParse ?raw]"])
           (simp add: stage_events_def)
    next
      case (ParseRaised x)
      have "snd (structured_stage e request template stage validate model tr) =
          tr @ [LlmRequest ?s ?u ?mn, JsonParse ?raw]"
        using reply ParseRaised raw
        by (simp add: structured_stage_def io_defs)
      then show ?thesis
        by (intro exI [of _ "[LlmRequest ?s ?u ?mn, JsonParse ?raw]"])
           (simp add: stage_events_def)
    next
      case (DecodeError exc)
      show ?thesis
      proof (cases rule: call_llm_cases [of e ?cs ?cu model ?tr1])
        case nokey
        have "snd (structured_stage e request template stage validate model tr) =
          tr @ [LlmRequest ?s ?u ?mn, JsonParse ?raw]"
          using reply DecodeError nokey raw
          by (simp add: structured_stage_def correct_json_eq io_defs)
        then show ?thesis
          by (intro exI [of _ "[LlmRequest ?s ?u ?mn, JsonParse ?raw]"])
             (simp add: stage_events_def)
      next
        case (raised exc')
        have "snd (structured_stage e request template stage validate model tr) =
          tr @ [LlmRequest ?s ?u ?mn, JsonParse ?raw, LlmRequest ?cs ?cu ?mn]"
          using reply DecodeError raised raw
          by (simp add: structured_stage_def correct_json_eq io_defs)
        then show ?thesis
          using DecodeError
          by (intro exI [of _ "[LlmRequest ?s ?u ?mn, JsonParse ?raw, LlmRequest ?cs ?cu ?mn]"])
             (simp add: stage_events_def)
      next
        case r2: (reply r2)
        from call_llm_reply [OF r2] have fixed: "strip r2 = ?fixed"
          by (simp add: stage_fixed_raw_def Let_def)
        have "snd (structured_stage e request template stage validate model tr) =
          tr @ [LlmRequest ?s ?u ?mn, JsonParse ?raw, LlmRequest ?cs ?cu ?mn, JsonParse ?fixed]"
        proof (cases "json_loads e ?fixed")
          case d2: (DecodeError exc2)
          then show ?thesis
            using reply DecodeError r2 raw fixed
            by (simp add: structured_stage_def correct_json_eq io_defs)
        next
          case p2: (ParseRaised x)
          then show ?thesis
            using reply DecodeError r2 raw fixed
            by (simp add: structured_stage_def correct_json_eq io_defs)
        next
          case (Parsed data)
          then show ?thesis
            using reply DecodeError r2 raw fixed
            by (cases "validate data"; cases data)
               (simp_all add: structured_stage_def correct_json_eq io_defs)
        qed
        then show ?thesis
          using DecodeError
          by (intro exI [of _ "[LlmRequest ?s ?u ?mn, JsonParse ?raw, LlmRequest ?cs ?cu ?mn,
                            JsonParse ?fixed]"])
             (simp add: stage_events_def)
      qed
    qed
  qed
qed

subsection \<open>Dry runs\<close>

lemma process_file_dry_run:
  "process_file e p output_dir log_dir model fl True tr =
     (case read_text e tr p of
        Inl exc \<Rightarrow> (Inl exc, tr)
      | Inr code \<Rightarrow> (Inr (dry_run_result p), tr))"
  by (cases "read_text e tr p") (simp_all add: process_file_def Let_def io_defs)

lemma run_files_dry_run:
  "run_files e output_dir log_dir model fl True files results tr =
     (results @ map dry_run_result (readable_files e tr files), tr)"
proof (induction files arbitrary: results)
  case Nil
  then show ?case by (simp add: readable_files_def)
next
  case (Cons p files)
  then show ?case
    by (cases "read_text e tr p") (simp_all add: process_file_dry_run readable_files_def)
qed

lemma py_round_div_zero: "0 < n \<Longrightarrow> py_round_div 0 n = 0"
  by (simp add: py_round_div_def)

lemma aggregate_dry_results:
  "aggregate_results run_id now (map dry_run_result files) =
     Inr \<lparr>ag_run_id = run_id, ag_timestamp_utc = now, ag_scanned_files = length files,
          ag_overall_risk_score = 0, ag_red_flags = [],
          ag_files = map dry_run_result files, ag_checklist = []\<rparr>"
proof -
  let ?frs = "map dry_run_result files"
  have r: "issues_readable ?frs"
    by (simp add: issues_readable_def list_all_iff dry_run_result_def)
  have "sum_list (map fr_risk_score ?frs) = 0"
    by (induction files) (simp_all add: dry_run_result_def)
  moreover have "expected_red_flags ?frs = []"
    by (simp add: expected_red_flags_def dry_run_result_def)
  moreover have "all_checklist_items ?frs = []"
    by (simp add: all_checklist_items_def dry_run_result_def)
  ultimately show ?thesis
    using aggregate_results_readable [OF r, of run_id now]
    by (simp add: py_round_div_zero)
qed

lemma md_renderable_dry: "md_renderable (dry_run_summary e a tr)"
  by (simp add: md_renderable_def dry_run_summary_def Let_def list_all_iff dry_run_result_def)

lemma main_dry_run:
  assumes "arg_dry_run a"
    and "path_exists e (resolve e (arg_path a))"
    and "discover_files e (resolve e (arg_path a)) (arg_glob a) \<noteq> []"
  shows "main e a tr =
     (Inr 0, tr @ [MakeDirs (run_output_dir_of e a tr),
                   WriteFile (child (run_output_dir_of e a tr) ''summary.json'')
                     (SummaryJson (dry_run_summary e a tr)),
                   MakeDirs (run_output_dir_of e a tr),
                   WriteFile (child (run_output_dir_of e a tr) ''summary.md'')
                     (SummaryMarkdown (dry_run_summary e a tr))])"
proof -
  have s: "aggregate_results rid (utcnow_iso e tr)
             (map dry_run_result (readable_files e tr (discover_files e (resolve e (arg_path a)) (arg_glob a))))
           = Inr (dry_run_summary e a tr)"
    if "rid = (case or_none (arg_run_id a) of Some r \<Rightarrow> r | None \<Rightarrow> utcnow_compact e tr)" for rid
    unfolding aggregate_dry_results using that by (simp add: dry_run_summary_def Let_def)
  show ?thesis
    using assms md_renderable_dry [of e a tr]
    by (simp add: main_def Let_def run_files_dry_run s io_defs write_summary_json_def
        write_summary_md_def run_output_dir_of_def)
qed

subsection \<open>A stage that fails inside \<^verbatim>\<open>process_file\<close>\<close>

lemma both_parses_fail_stage:
  assumes "both_parses_fail e request template model tr r exc r2 exc2"
  shows "structured_stage e request template stage validate model tr =
           (Inl (still_invalid stage exc exc2 (strip r) (strip r2)),
            tr @ stage_events (texts e) request template (model_or_default e model)
                   (strip r) (strip r2))"
proof -
  let ?mn = "model_or_default e model"
  let ?tr1 = "tr @ [LlmRequest (fst request) (snd request) ?mn]"
  let ?c = "build_json_correction_prompt (texts e) (strip r) template"
  let ?tr2 = "?tr1 @ [JsonParse (strip r)] @ [LlmRequest (fst ?c) (snd ?c) ?mn]"
  from assms have 1: "call_llm e (fst request) (snd request) model tr = (Inr r, ?tr1)"
    and 2: "json_loads e (strip r) = DecodeError exc"
    and 3: "call_llm e (fst ?c) (snd ?c) model (?tr1 @ [JsonParse (strip r)]) = (Inr r2, ?tr2)"
    and 4: "json_loads e (strip r2) = DecodeError exc2"
    by (simp_all add: both_parses_fail_def Let_def)
  from structured_stage_both_fail [OF 1 2 3 4, of stage validate]
  show ?thesis by (simp add: stage_events_def)
qed

lemma first_parse_raises_stage:
  assumes "first_parse_raises e request model tr r x"
  shows "structured_stage e request template stage validate model tr =
           (Inl x, tr @ [LlmRequest (fst request) (snd request) (model_or_default e model),
                         JsonParse (strip r)])"
proof -
  let ?tr1 = "tr @ [LlmRequest (fst request) (snd request) (model_or_default e model)]"
  from assms have 1: "call_llm e (fst request) (snd request) model tr = (Inr r, ?tr1)"
    and 2: "json_loads e (strip r) = ParseRaised x"
    by (simp_all add: first_parse_raises_def)
  from structured_stage_first_raises [OF 1 2, of template stage validate]
  show ?thesis by simp
qed

lemma second_parse_raises_stage:
  assumes "second_parse_raises e request template model tr r exc r2 x"
  shows "structured_stage e request template stage validate model tr =
           (Inl x,
            tr @ stage_events (texts e) request template (model_or_default e model)
                   (strip r) (strip r2))"
proof -
  let ?mn = "model_or_default e model"
  let ?tr1 = "tr @ [LlmRequest (fst request) (snd request) ?mn]"
  let ?c = "build_json_correction_prompt (texts e) (strip r) template"
  let ?tr2 = "?tr1 @ [JsonParse (strip r)] @ [LlmRequest (fst ?c) (snd ?c) ?mn]"
  from assms have 1: "call_llm e (fst request) (snd request) model tr = (Inr r, ?tr1)"
    and 2: "json_loads e (strip r) = DecodeError exc"
    and 3: "call_llm e (fst ?c) (snd ?c) model (?tr1 @ [JsonParse (strip r)]) = (Inr r2, ?tr2)"
    and 4: "json_loads e (strip r2) = ParseRaised x"
    by (simp_all add: second_parse_raises_def Let_def)
  from structured_stage_second_raises [OF 1 2 3 4, of stage validate]
  show ?thesis by (simp add: stage_events_def)
qed

lemma strip_broken: "strip ''{broken'' = ''{broken''"
  by (simp add: strip_def is_space_def whitespace_def)

lemma strip_deep_text: "strip deep_text = deep_text"
  by (simp add: strip_def deep_text_def is_space_def whitespace_def)

lemma broken_not_deep: "''{broken'' \<noteq> deep_text"
proof
  assume "''{broken'' = deep_text"
  then have "length ''{broken'' = length deep_text" by (rule arg_cong)
  then show False by (simp add: deep_text_def)
qed

lemma deep_env_fields:
  "texts (deep_env f) = demo_texts" "api_key (deep_env f) = ''key''"
  "default_model (deep_env f) = ''m''"
  "llm_reply (deep_env f) tr s u m =
     Inr (Some (if s = ''J'' \<or> s = f then deep_text else ''{broken''))"
  "json_loads (deep_env f) text =
     (if text = deep_text then ParseRaised RecursionError else DecodeError broken_error)"
  by (simp_all add: deep_env_def demo_env_def)

lemma demo_system_prompts:
  "fst (build_classification_prompt demo_texts code) = ''C''"
  "fst (build_analysis_prompt demo_texts code) = ''A''"
  "fst (build_json_correction_prompt demo_texts raw template) = ''J''"
  by (simp_all add: build_classification_prompt_def build_analysis_prompt_def
      build_json_correction_prompt_def demo_texts_def)

lemma deep_second_parse_raises:
  assumes "fst request \<noteq> ''J''" and "fst request \<noteq> f"
  shows "second_parse_raises (deep_env f) request template None [] ''{broken'' broken_error
           deep_text RecursionError"
  using assms
  by (simp add: second_parse_raises_def Let_def call_llm_def deep_env_fields
      demo_system_prompts model_or_default_def strip_broken strip_deep_text broken_not_deep)

lemma deep_first_parse_raises:
  assumes "fst request = f"
  shows "first_parse_raises (deep_env f) request None [] deep_text RecursionError"
  using assms
  by (simp add: first_parse_raises_def Let_def call_llm_def deep_env_fields
      model_or_default_def strip_deep_text)

lemma process_file_summary_fails:
  assumes "read_text e tr p = Inr code"
    and "summary_block e code model out (path_stem p) (new_run_logger (path_str p) model fl)
           (tr @ [MakeDirs out, MakeDirs log]) = (Inl exc, tr1)"
  shows "process_file e p out log model fl False tr = (Inl exc, tr1)"
  using assms by (simp add: process_file_def Let_def io_defs)

lemma process_file_classification_fails:
  assumes "read_text e tr p = Inr code"
    and "summary_block e code model out (path_stem p) (new_run_logger (path_str p) model fl)
           (tr @ [MakeDirs out, MakeDirs log]) = (Inr (summary_text, rl1), tr1)"
    and "\<not> no_classification fl"
    and "run_classification_step e code model tr1 = (Inl exc, tr2)"
  shows "process_file e p out log model fl False tr = (Inl exc, tr2)"
  using assms by (simp add: process_file_def classification_block_def Let_def io_defs)

lemma process_file_analysis_fails:
  assumes "read_text e tr p = Inr code"
    and "summary_block e code model out (path_stem p) (new_run_logger (path_str p) model fl)
           (tr @ [MakeDirs out, MakeDirs log]) = (Inr (summary_text, rl1), tr1)"
    and "classification_block e code model fl out (path_stem p) rl1 tr1 =
           (Inr (classification, rl2), tr2)"
    and "\<not> no_analysis fl"
    and "run_analysis_step e code model tr2 = (Inl exc, tr3)"
  shows "process_file e p out log model fl False tr = (Inl exc, tr3)"
  using assms by (simp add: process_file_def analysis_block_def Let_def io_defs)

lemma run_files_failed:
  "process_file e p out log model fl dry tr = (Inl exc, tr') \<Longrightarrow>
     run_files e out log model fl dry (p # rest) results tr =
     run_files e out log model fl dry rest results tr'"
  by simp

lemma aggregate_results_files:
  "aggregate_results run_id now results = Inr s \<Longrightarrow>
     ag_scanned_files s = length results \<and> ag_files s = results"
  by (auto simp: aggregate_results_def Let_def split: sum.splits prod.splits)

lemma still_invalid_carries:
  "\<exists>msg. still_invalid stage exc exc2 raw fixed_raw = ValueError msg \<and>
     sublist exc msg \<and> sublist exc2 msg \<and> sublist raw msg \<and> sublist fixed_raw msg"
proof -
  let ?a = "stage @ '' JSON still invalid after correction.'' @ newline @ ''Original error: ''"
  let ?b = "newline @ ''Correction error: ''"
  let ?c = "newline @ ''Original output:'' @ newline"
  let ?d = "newline @ newline @ ''Corrected output:'' @ newline"
  let ?msg = "?a @ exc @ ?b @ exc2 @ ?c @ raw @ ?d @ fixed_raw"
  have m: "still_invalid stage exc exc2 raw fixed_raw = ValueError ?msg"
    by (simp add: still_invalid_def)
  have "?msg = ?a @ exc @ (?b @ exc2 @ ?c @ raw @ ?d @ fixed_raw)" by simp
  then have 1: "sublist exc ?msg" unfolding sublist_def by blast
  have "?msg = (?a @ exc @ ?b) @ exc2 @ (?c @ raw @ ?d @ fixed_raw)" by simp
  then have 2: "sublist exc2 ?msg" unfolding sublist_def by blast
  have "?msg = (?a @ exc @ ?b @ exc2 @ ?c) @ raw @ (?d @ fixed_raw)" by simp
  then have 3: "sublist raw ?msg" unfolding sublist_def by blast
  have "?msg = (?a @ exc @ ?b @ exc2 @ ?c @ raw @ ?d) @ fixed_raw @ []" by simp
  then have 4: "sublist fixed_raw ?msg" unfolding sublist_def by blast
  from m 1 2 3 4 show ?thesis by blast
qed

subsection \<open>The issues of the results of a run\<close>

lemma normalized_readable: "normalized issue \<Longrightarrow> severity_readable issue"
  by (auto simp: normalized_def severity_readable_def py_get_def Let_def
        split: option.splits pyval.splits)

lemma flatten_readable:
  "flatten_issues_from_classification L c = Inr issues \<Longrightarrow> list_all severity_readable issues"
  using flatten_normalized [of L c issues] normalized_readable by (auto simp: list_all_iff)

lemma process_file_readable:
  assumes "process_file e p out log model fl dry tr = (Inr fr, tr')"
  shows "list_all severity_readable (fr_issues fr)"
proof (cases dry)
  case True
  with assms show ?thesis
    by (auto simp: process_file_dry_run dry_run_result_def split: sum.splits)
next
  case False
  with assms obtain classification where
    "flatten_issues_from_classification (interpreter e) classification = Inr (fr_issues fr)"
    by (auto simp: process_file_def Let_def bindIO_def returnIO_def liftE_def
          split: sum.splits prod.splits if_splits)
  then show ?thesis by (rule flatten_readable)
qed

lemma run_files_readable:
  "run_files e out log model fl dry files results tr = (results', tr') \<Longrightarrow>
     issues_readable results \<Longrightarrow> issues_readable results'"
proof (induction files arbitrary: results tr)
  case Nil
  then show ?case by simp
next
  case (Cons p files)
  show ?case
  proof (cases "process_file e p out log model fl dry tr")
    case (Pair r tr1)
    show ?thesis
    proof (cases r)
      case (Inl exc)
      with Cons Pair show ?thesis by simp
    next
      case (Inr fr)
      with Pair have "list_all severity_readable (fr_issues fr)"
        using process_file_readable by blast
      with Cons.prems(2) have "issues_readable (results @ [fr])"
        by (simp add: issues_readable_def)
      with Cons.IH [of "results @ [fr]" tr1] Cons.prems(1) Pair Inr show ?thesis by simp
    qed
  qed
qed

section \<open>The claims\<close>

subsection \<open>Risk score of one file, overall score of a run\<close>

text \<open>
  Claim C1, as the specification states it: for the classification \<^verbatim>\<open>{"critical": ["X"]}\<close>
  and an analysis without risks the risk score of the file is 30. In the code the key of a
  classification is a category, not a severity; the entry \<^verbatim>\<open>"X"\<close> is a bare string, so
  it gets the default severity \<^verbatim>\<open>medium\<close> and the score is 10, not 30.
\<close>

theorem risk_score_counterexample:
  "\<forall>L. compute_risk_score L [(''critical'', PList [PStr ''X''])] empty_analysis \<noteq> Inr 30"
  by (simp add: flat_eval empty_analysis_def)

text \<open>
  Claim C1, amended: for the classification \<^verbatim>\<open>{"critical": ["X"]}\<close> and an analysis without
  risks the risk score of the file is 10 (it is 30 when the entry is a mapping whose
  severity is \<^verbatim>\<open>critical\<close>); and for a run of two files with risk scores 30 and 10,
  \<^verbatim>\<open>aggregate_results\<close> yields the overall risk score 20.
\<close>

theorem risk_score_example:
  "(\<not> truthy (py_get a ''risks'') \<longrightarrow>
      compute_risk_score L [(''critical'', PList [PStr x])] a = Inr 10 \<and>
      compute_risk_score L
        [(''critical'', PList [PDict [(''severity'', PStr ''critical''), (''message'', PStr x)]])] a
        = Inr 30) \<and>
   (fr_risk_score f1 = 30 \<and> fr_risk_score f2 = 10 \<and> issues_readable [f1, f2] \<longrightarrow>
      (\<exists>s. aggregate_results run_id now [f1, f2] = Inr s \<and> ag_overall_risk_score s = 20))"
proof -
  have "compute_risk_score L [(''critical'', PList [PStr x])] a = Inr 10"
    if "\<not> truthy (py_get a ''risks'')"
    using that by (simp add: flat_eval)
  moreover have "compute_risk_score L
        [(''critical'', PList [PDict [(''severity'', PStr ''critical''), (''message'', PStr x)]])] a
        = Inr 30"
    if "\<not> truthy (py_get a ''risks'')"
    using that by (simp add: flat_eval)
  moreover have "\<exists>s. aggregate_results run_id now [f1, f2] = Inr s \<and> ag_overall_risk_score s = 20"
    if "fr_risk_score f1 = 30" "fr_risk_score f2 = 10" "issues_readable [f1, f2]"
    using aggregate_results_readable [OF that(3), of run_id now] that(1,2)
    by (simp add: py_round_div_def)
  ultimately show ?thesis by blast
qed

theorem risk_score_example_witness:
  "\<not> truthy (py_get empty_analysis ''risks'') \<and>
   compute_risk_score demo_interp [(''critical'', PList [PStr ''X''])] empty_analysis = Inr 10 \<and>
   issues_readable
     [\<lparr>fr_path = ''a.sql'', fr_risk_score = 30, fr_summary = [], fr_issues = [],
       fr_refactor_suggestions = [], fr_checklist_items = []\<rparr>,
      \<lparr>fr_path = ''b.sql'', fr_risk_score = 10, fr_summary = [], fr_issues = [],
       fr_refactor_suggestions = [], fr_checklist_items = []\<rparr>] \<and>
   (\<exists>s. aggregate_results ''run'' ''now''
          [\<lparr>fr_path = ''a.sql'', fr_risk_score = 30, fr_summary = [], fr_issues = [],
            fr_refactor_suggestions = [], fr_checklist_items = []\<rparr>,
           \<lparr>fr_path = ''b.sql'', fr_risk_score = 10, fr_summary = [], fr_issues = [],
            fr_refactor_suggestions = [], fr_checklist_items = []\<rparr>] = Inr s \<and>
        ag_overall_risk_score s = 20)"
proof -
  let ?f1 = "\<lparr>fr_path = ''a.sql'', fr_risk_score = 30, fr_summary = [], fr_issues = [],
       fr_refactor_suggestions = [], fr_checklist_items = []\<rparr>"
  let ?f2 = "\<lparr>fr_path = ''b.sql'', fr_risk_score = 10, fr_summary = [], fr_issues = [],
       fr_refactor_suggestions = [], fr_checklist_items = []\<rparr>"
  have a: "\<not> truthy (py_get empty_analysis ''risks'')"
    by (simp add: empty_analysis_def py_get_def)
  have r: "issues_readable [?f1, ?f2]"
    by (simp add: issues_readable_def)
  from risk_score_example [where a = empty_analysis and L = demo_interp and x = "''X''"
      and ?f1.0 = ?f1 and ?f2.0 = ?f2 and run_id = "''run''" and now = "''now''"] a r
  show ?thesis by simp
qed

text \<open>
  Claim C6: the risk score that \<^verbatim>\<open>_compute_risk_score\<close> returns lies between 0 and 100,
  and the empty classification with the empty analysis scores 0. A score is returned
  exactly for the classifications that flattening accepts: those in which every list
  element is a mapping whose severity is missing, false in a condition or a string, or
  another value whose \<^verbatim>\<open>str\<close> returns. For any other classification flattening raises
  and there is no score.
\<close>

theorem risk_score_range:
  "(\<forall>s. compute_risk_score L c a = Inr s \<longrightarrow> 0 \<le> s \<and> s \<le> 100) \<and>
   ((\<exists>s. compute_risk_score L c a = Inr s) \<longleftrightarrow> flattenable L c) \<and>
   compute_risk_score L empty_classification empty_analysis = Inr 0"
proof -
  have "compute_risk_score L empty_classification empty_analysis = Inr 0"
    by (simp add: compute_risk_score_def flatten_issues_from_classification_def bindE_def
        empty_classification_def empty_analysis_def py_or_def py_get_def)
  then show ?thesis
    using compute_risk_score_bounds compute_risk_score_total compute_risk_score_returns
    by blast
qed

theorem risk_score_range_witness:
  "flattenable demo_interp [(''security'', PList [PStr ''dynamic SQL'', PStr ''grants''])] \<and>
   compute_risk_score demo_interp [(''security'', PList [PStr ''dynamic SQL'', PStr ''grants''])]
     [(''risks'', PList [PStr ''locks''])] = Inr 25 \<and> (0::int) \<le> 25 \<and> (25::int) \<le> 100 \<and>
   \<not> flattenable demo_interp [(''performance'', PList [PInt big_int])] \<and>
   (\<forall>a s. compute_risk_score demo_interp [(''performance'', PList [PInt big_int])] a \<noteq> Inr s)"
proof -
  let ?c = "[(''security'', PList [PStr ''dynamic SQL'', PStr ''grants''])]"
  let ?a = "[(''risks'', PList [PStr ''locks''])]"
  let ?big = "[(''performance'', PList [PInt big_int])]"
  have v: "compute_risk_score demo_interp ?c ?a = Inr 25"
    by (simp add: flat_eval)
  have f: "flattenable demo_interp ?c"
    by (simp add: flattenable_def issue_usable_def str_returns_def py_str_def)
  have b: "\<not> flattenable demo_interp ?big"
    by (simp add: flattenable_def issue_usable_def str_returns_def py_str_big_int)
  from risk_score_range [of demo_interp ?c ?a] v f
  have 1: "(0::int) \<le> 25 \<and> (25::int) \<le> 100" by simp
  from risk_score_range [of demo_interp ?big] b
  have 2: "\<forall>a s. compute_risk_score demo_interp ?big a \<noteq> Inr s" by blast
  from v f b 1 2 show ?thesis by blast
qed

subsection \<open>Schema validator\<close>

text \<open>
  Claim C3, as the specification states it: \<^verbatim>\<open>validate_classification\<close> accepts a
  dictionary if and only if the seven categories are present and each is a sequence of
  strings. The last loop of the validator visits every item of the dictionary, so a
  reply with the seven categories in order and one more key whose list holds a number is
  rejected.
\<close>

theorem validate_extra_key_counterexample:
  "spec_classification_ok (empty_classification @ [(''extra'', PList [PInt 1])]) \<and>
   (\<forall>L. validate_classification L (PDict (empty_classification @ [(''extra'', PList [PInt 1])])) []
     \<noteq> Inr ())"
  by (simp add: empty_classification_def spec_classification_ok_def
      required_categories_def str_list_def validate_classification_dict iterates_strings_def)

text \<open>
  Claim C3, amended: \<^verbatim>\<open>validate_classification\<close> accepts a dictionary if and only if the
  seven categories are present, each a sequence of strings, and the value of every key of
  the dictionary, the seven and any other, is one that a loop runs over meeting strings
  only. For a dictionary whose keys are all among the seven categories this is: accepted
  if and only if the seven are present and each is a sequence of strings.
\<close>

theorem validate_classification_accepts:
  "(validate_classification L (PDict d) code = Inr () \<longleftrightarrow>
      spec_classification_ok d \<and> list_all (\<lambda>kv. iterates_strings (snd kv)) d) \<and>
   (distinct (map fst d) \<and> set (map fst d) \<subseteq> set required_categories \<longrightarrow>
      (validate_classification L (PDict d) code = Inr () \<longleftrightarrow> spec_classification_ok d))"
proof -
  let ?lists = "list_all (\<lambda>k. case map_of d k of Some v \<Rightarrow> is_list v | None \<Rightarrow> False) required_categories"
  let ?entries = "list_all (\<lambda>kv. iterates_strings (snd kv)) d"
  have a: "spec_classification_ok d" if "?lists" "?entries"
    unfolding spec_classification_ok_def list_all_iff
  proof
    fix k assume k: "k \<in> set required_categories"
    with that(1) obtain v where v: "map_of d k = Some v" "is_list v"
      by (auto simp: list_all_iff split: option.splits)
    then have "(k, v) \<in> set d" by (simp add: map_of_SomeD)
    with that(2) have "iterates_strings v" by (auto simp: list_all_iff)
    with v show "case map_of d k of Some v \<Rightarrow> str_list v | None \<Rightarrow> False"
      by (simp add: is_list_iterates)
  qed
  have b: "?lists" if "spec_classification_ok d"
    using that unfolding spec_classification_ok_def list_all_iff
    by (auto split: option.splits dest: str_list_is_list)
  have c: "?entries"
    if ok: "spec_classification_ok d" and dist: "distinct (map fst d)"
      and sub: "set (map fst d) \<subseteq> set required_categories"
    unfolding list_all_iff
  proof
    fix kv assume kv: "kv \<in> set d"
    obtain k v where [simp]: "kv = (k, v)" by (cases kv)
    from kv sub have "k \<in> set required_categories" by force
    moreover from kv dist have "map_of d k = Some v" by simp
    ultimately have "str_list v"
      using ok unfolding spec_classification_ok_def list_all_iff by force
    then show "iterates_strings (snd kv)"
      using is_list_iterates str_list_is_list by simp
  qed
  show ?thesis
    unfolding validate_classification_dict using a b c by blast
qed

theorem validate_classification_accepts_witness: "distinct (map fst empty_classification) \<and>
   set (map fst empty_classification) \<subseteq> set required_categories \<and>
   spec_classification_ok empty_classification \<and>
   validate_classification demo_interp (PDict empty_classification) [] = Inr ()"
proof -
  have 1: "distinct (map fst empty_classification)"
    by (simp add: empty_classification_def)
  have 2: "set (map fst empty_classification) \<subseteq> set required_categories"
    by (simp add: empty_classification_def required_categories_def)
  have 3: "spec_classification_ok empty_classification"
    by (simp add: empty_classification_def required_categories_def spec_classification_ok_def
        str_list_def)
  from validate_classification_accepts [of demo_interp empty_classification "[]"] 1 2 3
  show ?thesis by blast
qed

subsection \<open>Flattening a classification\<close>

text \<open>
  Claim C9: an issue that has no severity field, a null or empty severity, or a severity
  string that is none of \<^verbatim>\<open>low\<close>, \<^verbatim>\<open>medium\<close>, \<^verbatim>\<open>high\<close>, \<^verbatim>\<open>critical\<close> once in lower case:
  whenever it is flattened, its severity is exactly \<^verbatim>\<open>medium\<close> and it is among the issues
  that \<^verbatim>\<open>_flatten_issues_from_classification\<close> returns. It is flattened without an
  exception when it is a mapping, and when it is another value whose \<^verbatim>\<open>str\<close> returns.
\<close>

theorem flatten_default_severity:
  assumes "severity_defaulted issue"
  shows "(is_dict issue \<or> str_returns L issue \<longrightarrow>
            (\<exists>d. flatten_issue L category issue = Inr d)) \<and>
         (\<forall>d. flatten_issue L category issue = Inr d \<longrightarrow>
            map_of d ''severity'' = Some (PStr ''medium'') \<and>
            (\<forall>c1 xs ys c2 issues.
               flatten_issues_from_classification L
                 (c1 @ (category, PList (xs @ issue # ys)) # c2) = Inr issues
               \<longrightarrow> d \<in> set issues))"
proof (intro conjI impI allI)
  assume "is_dict issue \<or> str_returns L issue"
  with assms have "issue_usable L issue" by (rule defaulted_usable)
  then show "\<exists>d. flatten_issue L category issue = Inr d" by (rule flatten_issue_usable)
next
  fix d assume "flatten_issue L category issue = Inr d"
  with assms show "map_of d ''severity'' = Some (PStr ''medium'')"
    by (rule flatten_issue_defaulted)
next
  fix d c1 xs ys c2 issues
  assume fl: "flatten_issue L category issue = Inr d"
    and "flatten_issues_from_classification L
           (c1 @ (category, PList (xs @ issue # ys)) # c2) = Inr issues"
  then have "flatten_loop L (c1 @ (category, PList (xs @ issue # ys)) # c2) [] = Inr issues"
    by (simp add: flatten_issues_from_classification_def)
  from flatten_loop_acc [OF this] fl show "d \<in> set issues"
    by fastforce
qed

theorem flatten_default_severity_witness:
  "severity_defaulted (PDict [(''message'', PStr ''no index''), (''severity'', PStr ''Urgent'')]) \<and>
   is_dict (PDict [(''message'', PStr ''no index''), (''severity'', PStr ''Urgent'')]) \<and>
   (\<exists>d. flatten_issue demo_interp ''performance''
           (PDict [(''message'', PStr ''no index''), (''severity'', PStr ''Urgent'')]) = Inr d \<and>
        map_of d ''severity'' = Some (PStr ''medium''))"
proof -
  let ?i = "PDict [(''message'', PStr ''no index''), (''severity'', PStr ''Urgent'')]"
  have h: "severity_defaulted ?i"
    by (simp add: severity_defaulted_def severities_def str_eval)
  have d: "is_dict ?i" by simp
  from flatten_default_severity [OF h, of demo_interp "''performance''"] h d
  show ?thesis by blast
qed

text \<open>
  Claim C10, as stated: \<^verbatim>\<open>_flatten_issues_from_classification\<close> never raises, whatever the
  dictionary. It calls \<^verbatim>\<open>.lower()\<close> on the severity of an issue, so an issue given as a
  mapping whose severity is the number 5 raises \<^verbatim>\<open>AttributeError\<close>; and it calls \<^verbatim>\<open>str\<close>
  on a list element that is not a mapping, so an integer of 4301 digits raises the
  \<^verbatim>\<open>ValueError\<close> of the digit limit.
\<close>

theorem flatten_raises_counterexample:
  "(\<forall>L. flatten_issues_from_classification L
           [(''performance'', PList [PDict [(''severity'', PInt 5)]])] = Inl AttributeError) \<and>
   flatten_issues_from_classification demo_interp
     [(''performance'', PList [PInt big_int])] = Inl DigitLimit"
proof -
  have "flatten_issue demo_interp ''performance'' (PInt big_int) = Inl DigitLimit"
    by (rule flatten_issue_str_raises) (simp_all add: py_str_big_int)
  then show ?thesis
    by (simp add: flatten_issues_from_classification_def flatten_issue_dict py_get_def
        py_or_def)
qed

text \<open>
  Claim C10, amended: \<^verbatim>\<open>_flatten_issues_from_classification\<close> returns if and only if
  every list element of the dictionary is a mapping whose severity is missing, false in a
  condition or a string, or another value whose \<^verbatim>\<open>str\<close> returns. Then it returns the
  issues of the dictionary in order; a key whose value is not a list is skipped and
  contributes no issue; a list element that is not a mapping becomes the issue whose
  message is the string form of the element, with the category of its key, the severity
  \<^verbatim>\<open>medium\<close> and the upper-case category as its code. Otherwise it raises the exception
  of the first list element that it cannot flatten: for an element that is not a mapping
  the exception that \<^verbatim>\<open>str\<close> raises (an integer with more digits than the limit, a
  value nested too deeply), for a mapping whose severity is true in a condition and not a
  string \<^verbatim>\<open>AttributeError\<close>.
\<close>

theorem flatten_total_when_usable:
  "((\<exists>issues. flatten_issues_from_classification L c = Inr issues) \<longleftrightarrow> flattenable L c) \<and>
   (flattenable L c \<longrightarrow> flatten_issues_from_classification L c = Inr (issues_of L c)) \<and>
   (\<not> is_list v \<longrightarrow>
      flatten_issues_from_classification L (c1 @ (k, v) # c2) =
      flatten_issues_from_classification L (c1 @ c2)) \<and>
   (\<not> is_dict x \<and> py_str L x = Inr s \<longrightarrow>
      flatten_issue L category x =
        Inr [(''message'', PStr s), (''category'', PStr category),
             (''severity'', PStr ''medium''), (''code'', PStr (str_upper L category))]) \<and>
   (\<not> is_dict x \<and> py_str L x = Inl e \<longrightarrow> flatten_issue L category x = Inl e) \<and>
   (\<not> severity_readable d \<longrightarrow> flatten_issue L category (PDict d) = Inl AttributeError) \<and>
   (flattenable L c3 \<and> list_all (issue_usable L) xs \<and> flatten_issue L category x = Inl e \<longrightarrow>
      flatten_issues_from_classification L (c3 @ (category, PList (xs @ x # ys)) # c4) = Inl e)"
proof (intro conjI impI)
  show "(\<exists>issues. flatten_issues_from_classification L c = Inr issues) \<longleftrightarrow> flattenable L c"
    unfolding flatten_issues_from_classification_def
    using flatten_loop_returns [of L c "[]"] flatten_loop_usable [of L c "[]"] by auto
next
  assume "flattenable L c"
  then show "flatten_issues_from_classification L c = Inr (issues_of L c)"
    using flatten_loop_usable [of L c "[]"]
    by (simp add: flatten_issues_from_classification_def)
next
  assume "\<not> is_list v"
  then show "flatten_issues_from_classification L (c1 @ (k, v) # c2) =
      flatten_issues_from_classification L (c1 @ c2)"
    by (simp add: flatten_issues_from_classification_def flatten_loop_skip)
next
  assume "\<not> is_dict x \<and> py_str L x = Inr s"
  then show "flatten_issue L category x =
        Inr [(''message'', PStr s), (''category'', PStr category),
             (''severity'', PStr ''medium''), (''code'', PStr (str_upper L category))]"
    by (simp add: flatten_issue_non_dict)
next
  assume "\<not> is_dict x \<and> py_str L x = Inl e"
  then show "flatten_issue L category x = Inl e"
    by (simp add: flatten_issue_str_raises)
next
  assume "\<not> severity_readable d"
  then show "flatten_issue L category (PDict d) = Inl AttributeError"
    by (rule flatten_issue_severity_raises)
next
  assume "flattenable L c3 \<and> list_all (issue_usable L) xs \<and> flatten_issue L category x = Inl e"
  then show "flatten_issues_from_classification L (c3 @ (category, PList (xs @ x # ys)) # c4)
      = Inl e"
    by (simp add: flatten_issues_from_classification_def flatten_first_raises)
qed

theorem flatten_total_when_usable_witness:
  "flattenable demo_interp [(''performance'', PInt 3), (''security'', PList [PInt 7])] \<and>
   \<not> is_list (PInt 3) \<and> \<not> is_dict (PInt 7) \<and> py_str demo_interp (PInt 7) = Inr ''7'' \<and>
   flatten_issues_from_classification demo_interp
     [(''performance'', PInt 3), (''security'', PList [PInt 7])] =
     Inr [[(''message'', PStr ''7''), (''category'', PStr ''security''),
           (''severity'', PStr ''medium''), (''code'', PStr ''SECURITY'')]] \<and>
   flatten_issues_from_classification demo_interp
     [(''performance'', PInt 3), (''security'', PList [PInt 7])] =
   flatten_issues_from_classification demo_interp [(''security'', PList [PInt 7])] \<and>
   \<not> is_dict (PInt big_int) \<and> py_str demo_interp (PInt big_int) = Inl DigitLimit \<and>
   flatten_issue demo_interp ''security'' (PInt big_int) = Inl DigitLimit \<and>
   \<not> severity_readable [(''severity'', PBool True)] \<and>
   flatten_issue demo_interp ''security'' (PDict [(''severity'', PBool True)])
     = Inl AttributeError \<and>
   flatten_issues_from_classification demo_interp
     [(''performance'', PInt 3),
      (''security'', PList [PInt 7, PDict [(''severity'', PBool True)], PInt big_int])]
     = Inl AttributeError"
proof -
  let ?c = "[(''performance'', PInt 3), (''security'', PList [PInt 7])]"
  have f: "flattenable demo_interp ?c"
    by (simp add: flattenable_def issue_usable_def str_returns_def py_str_def py_repr_def
        int_repr_def demo_interp_def)
  have x: "\<not> is_dict (PInt 7)" "\<not> is_list (PInt 3)" "\<not> is_dict (PInt big_int)" by simp_all
  have s: "py_str demo_interp (PInt 7) = Inr ''7''"
    by (simp add: py_str_def py_repr_def int_repr_def demo_interp_def)
  have u: "str_upper demo_interp ''security'' = ''SECURITY''"
    by (simp add: demo_interp_def str_eval)
  have r: "\<not> severity_readable [(''severity'', PBool True)]"
    by (simp add: severity_readable_def py_get_def)
  note T = flatten_total_when_usable [where L = demo_interp and category = "''security''"]
  from T [where c = ?c and x = "PInt 7" and s = "''7''"] f x s
  have 1: "flatten_issues_from_classification demo_interp ?c = Inr (issues_of demo_interp ?c)"
    and 2: "flatten_issue demo_interp ''security'' (PInt 7) =
        Inr [(''message'', PStr ''7''), (''category'', PStr ''security''),
             (''severity'', PStr ''medium''),
             (''code'', PStr (str_upper demo_interp ''security''))]"
    by blast+
  from T [where ?c1.0 = "[]" and k = "''performance''" and v = "PInt 3"
      and ?c2.0 = "[(''security'', PList [PInt 7])]"] x
  have 3: "flatten_issues_from_classification demo_interp ?c =
           flatten_issues_from_classification demo_interp [(''security'', PList [PInt 7])]"
    by simp
  from T [where x = "PInt big_int" and e = DigitLimit] x py_str_big_int
  have 4: "flatten_issue demo_interp ''security'' (PInt big_int) = Inl DigitLimit"
    by blast
  from T [where d = "[(''severity'', PBool True)]"] r
  have 5: "flatten_issue demo_interp ''security'' (PDict [(''severity'', PBool True)])
     = Inl AttributeError"
    by blast
  have g: "flattenable demo_interp [(''performance'', PInt 3)]"
    "list_all (issue_usable demo_interp) [PInt 7]"
    by (simp_all add: flattenable_def issue_usable_def str_returns_def s)
  from T [where ?c3.0 = "[(''performance'', PInt 3)]" and xs = "[PInt 7]"
      and x = "PDict [(''severity'', PBool True)]" and e = AttributeError
      and ys = "[PInt big_int]" and ?c4.0 = "[]"] g 5
  have 6: "flatten_issues_from_classification demo_interp
     [(''performance'', PInt 3),
      (''security'', PList [PInt 7, PDict [(''severity'', PBool True)], PInt big_int])]
     = Inl AttributeError"
    by simp
  have i: "issues_of demo_interp ?c =
     [[(''message'', PStr ''7''), (''category'', PStr ''security''),
       (''severity'', PStr ''medium''), (''code'', PStr ''SECURITY'')]]"
    by (simp add: issues_of_def the_issue_def 2 u)
  from f x s 1 3 4 5 6 r py_str_big_int show ?thesis
    unfolding i by simp
qed

subsection \<open>Red flags and checklist of a run\<close>

text \<open>
  Claim C7: in the summary of a run, the red flags are the issues whose severity is
  \<^verbatim>\<open>high\<close> or \<^verbatim>\<open>critical\<close>, file by file: an issue of a file has its entry if and only if
  its severity is one of the two, no entry has the severity \<^verbatim>\<open>low\<close> or \<^verbatim>\<open>medium\<close>, and
  each entry carries the path of the file of its issue. The per-file results are those
  whose issues have a readable severity; the results that the loop of \<^verbatim>\<open>main\<close> collects
  are such (\<open>run_files_readable\<close>).
\<close>

theorem red_flags_high_or_critical:
  assumes "issues_readable frs"
  shows "\<exists>s. aggregate_results run_id now frs = Inr s \<and>
           ag_red_flags s = expected_red_flags frs \<and>
           (\<forall>fr \<in> set frs. \<forall>i \<in> set (fr_issues fr).
              make_red_flag fr i \<in> set (ag_red_flags s) \<longleftrightarrow> high_or_critical i) \<and>
           (\<forall>rf \<in> set (ag_red_flags s).
              (\<exists>sev. rf_severity rf = PStr sev \<and> lower sev \<in> set [''high'', ''critical'']) \<and>
              (\<exists>fr \<in> set frs. \<exists>i \<in> set (fr_issues fr).
                 rf = make_red_flag fr i \<and> rf_file rf = fr_path fr))"
proof -
  let ?s = "\<lparr>ag_run_id = run_id, ag_timestamp_utc = now, ag_scanned_files = length frs,
            ag_overall_risk_score =
              (if frs = [] then 0
               else py_round_div (sum_list (map fr_risk_score frs)) (int (length frs))),
            ag_red_flags = expected_red_flags frs, ag_files = frs,
            ag_checklist = first_seen (all_checklist_items frs)\<rparr>"
  have mem: "rf \<in> set (expected_red_flags frs) \<longleftrightarrow>
      (\<exists>fr \<in> set frs. \<exists>i \<in> set (fr_issues fr). high_or_critical i \<and> rf = make_red_flag fr i)"
    for rf
    by (auto simp: expected_red_flags_def)
  have a: "make_red_flag fr i \<in> set (expected_red_flags frs) \<longleftrightarrow> high_or_critical i"
    if "fr \<in> set frs" "i \<in> set (fr_issues fr)" for fr i
  proof
    assume "make_red_flag fr i \<in> set (expected_red_flags frs)"
    then obtain fr' i' where "high_or_critical i'" "make_red_flag fr i = make_red_flag fr' i'"
      unfolding mem by blast
    then show "high_or_critical i"
      using high_or_critical_flag [of i fr] high_or_critical_flag [of i' fr'] by simp
  next
    assume "high_or_critical i"
    with that show "make_red_flag fr i \<in> set (expected_red_flags frs)"
      unfolding mem by blast
  qed
  have b: "(\<exists>sev. rf_severity rf = PStr sev \<and> lower sev \<in> set [''high'', ''critical'']) \<and>
           (\<exists>fr \<in> set frs. \<exists>i \<in> set (fr_issues fr).
              rf = make_red_flag fr i \<and> rf_file rf = fr_path fr)"
    if "rf \<in> set (expected_red_flags frs)" for rf
  proof -
    from that obtain fr i where fi: "fr \<in> set frs" "i \<in> set (fr_issues fr)"
      "high_or_critical i" "rf = make_red_flag fr i"
      unfolding mem by blast
    then have "\<exists>sev. rf_severity rf = PStr sev \<and> lower sev \<in> set [''high'', ''critical'']"
      using high_or_critical_flag [of i fr] by simp
    moreover have "rf_file rf = fr_path fr"
      using fi(4) by (simp add: make_red_flag_def)
    ultimately show ?thesis using fi by blast
  qed
  have "aggregate_results run_id now frs = Inr ?s"
    by (rule aggregate_results_readable [OF assms])
  moreover have "ag_red_flags ?s = expected_red_flags frs" by simp
  ultimately show ?thesis using a b by (intro exI [of _ ?s]) simp
qed

theorem red_flags_high_or_critical_witness:
  "issues_readable
     [\<lparr>fr_path = ''a.sql'', fr_risk_score = 25, fr_summary = ''s'',
       fr_issues = [[(''message'', PStr ''grant''), (''severity'', PStr ''high''),
                     (''code'', PStr ''SECURITY'')],
                    [(''message'', PStr ''naming''), (''severity'', PStr ''low''),
                     (''code'', PStr ''MAINTAINABILITY'')]],
       fr_refactor_suggestions = [], fr_checklist_items = []\<rparr>] \<and>
   (\<exists>s. aggregate_results ''run'' ''now''
          [\<lparr>fr_path = ''a.sql'', fr_risk_score = 25, fr_summary = ''s'',
            fr_issues = [[(''message'', PStr ''grant''), (''severity'', PStr ''high''),
                          (''code'', PStr ''SECURITY'')],
                         [(''message'', PStr ''naming''), (''severity'', PStr ''low''),
                          (''code'', PStr ''MAINTAINABILITY'')]],
            fr_refactor_suggestions = [], fr_checklist_items = []\<rparr>] = Inr s \<and>
        ag_red_flags s =
          [\<lparr>rf_file = ''a.sql'', rf_severity = PStr ''high'', rf_code = PStr ''SECURITY'',
            rf_message = PStr ''grant''\<rparr>])"
proof -
  let ?frs = "[\<lparr>fr_path = ''a.sql'', fr_risk_score = 25, fr_summary = ''s'',
       fr_issues = [[(''message'', PStr ''grant''), (''severity'', PStr ''high''),
                     (''code'', PStr ''SECURITY'')],
                    [(''message'', PStr ''naming''), (''severity'', PStr ''low''),
                     (''code'', PStr ''MAINTAINABILITY'')]],
       fr_refactor_suggestions = [], fr_checklist_items = []\<rparr>]"
  have h: "issues_readable ?frs"
    by (simp add: issues_readable_def severity_readable_def py_get_def)
  have e: "expected_red_flags ?frs =
          [\<lparr>rf_file = ''a.sql'', rf_severity = PStr ''high'', rf_code = PStr ''SECURITY'',
            rf_message = PStr ''grant''\<rparr>]"
    by (simp add: expected_red_flags_def high_or_critical_def make_red_flag_def py_get_def
        str_eval)
  from red_flags_high_or_critical [OF h, of "''run''" "''now''"] obtain s where
    "aggregate_results ''run'' ''now'' ?frs = Inr s" "ag_red_flags s = expected_red_flags ?frs"
    by blast
  with h e show ?thesis by simp
qed

text \<open>
  Claim C8: the checklist of a run is the checklist items of all files, deduplicated by
  exact text in first-seen order: each distinct string appears exactly once. Two files
  that each produce \<^verbatim>\<open>Review: check nulls\<close> give one entry.
\<close>

theorem checklist_first_seen:
  assumes "issues_readable frs"
  shows "\<exists>s. aggregate_results run_id now frs = Inr s \<and>
           ag_checklist s = first_seen (all_checklist_items frs) \<and>
           distinct (ag_checklist s) \<and>
           set (ag_checklist s) = set (all_checklist_items frs)"
  using aggregate_results_readable [OF assms, of run_id now]
  by (simp add: distinct_first_seen set_first_seen)

theorem checklist_first_seen_witness:
  "derive_checklist_items demo_interp empty_classification
     [(''summary'', PStr ''s''), (''risks'', PList [PStr ''check nulls'']),
      (''assumptions'', PList [])] = Inr [''Review: check nulls''] \<and>
   issues_readable
     [\<lparr>fr_path = ''a.sql'', fr_risk_score = 5, fr_summary = ''s'', fr_issues = [],
       fr_refactor_suggestions = [], fr_checklist_items = [''Review: check nulls'']\<rparr>,
      \<lparr>fr_path = ''b.sql'', fr_risk_score = 5, fr_summary = ''s'', fr_issues = [],
       fr_refactor_suggestions = [], fr_checklist_items = [''Review: check nulls'']\<rparr>] \<and>
   (\<exists>s. aggregate_results ''run'' ''now''
          [\<lparr>fr_path = ''a.sql'', fr_risk_score = 5, fr_summary = ''s'', fr_issues = [],
            fr_refactor_suggestions = [], fr_checklist_items = [''Review: check nulls'']\<rparr>,
           \<lparr>fr_path = ''b.sql'', fr_risk_score = 5, fr_summary = ''s'', fr_issues = [],
            fr_refactor_suggestions = [], fr_checklist_items = [''Review: check nulls'']\<rparr>]
          = Inr s \<and>
        ag_checklist s = [''Review: check nulls''])"
proof -
  let ?frs = "[\<lparr>fr_path = ''a.sql'', fr_risk_score = 5, fr_summary = ''s'', fr_issues = [],
       fr_refactor_suggestions = [], fr_checklist_items = [''Review: check nulls'']\<rparr>,
      \<lparr>fr_path = ''b.sql'', fr_risk_score = 5, fr_summary = ''s'', fr_issues = [],
       fr_refactor_suggestions = [], fr_checklist_items = [''Review: check nulls'']\<rparr>]"
  have d: "derive_checklist_items demo_interp empty_classification
     [(''summary'', PStr ''s''), (''risks'', PList [PStr ''check nulls'']),
      (''assumptions'', PList [])] = Inr [''Review: check nulls'']"
    by code_simp
  have h: "issues_readable ?frs"
    by (simp add: issues_readable_def)
  have e: "first_seen (all_checklist_items ?frs) = [''Review: check nulls'']"
    by (simp add: all_checklist_items_def)
  from checklist_first_seen [OF h, of "''run''" "''now''"] obtain s where
    "aggregate_results ''run'' ''now'' ?frs = Inr s"
    "ag_checklist s = first_seen (all_checklist_items ?frs)"
    by blast
  with d h e show ?thesis by simp
qed

subsection \<open>Structured stages and the correction pass\<close>

text \<open>
  Claim C4: a structured stage (classification or analysis) makes at most two parse
  attempts, one on the reply and at most one on the corrected reply. Its events are an
  initial part of: the request of the stage; the parse of \<open>stage_raw\<close>, the text that the
  service answers to that request; the correction request, built from that text and the
  template of the stage; the parse of \<open>stage_fixed_raw\<close>, the text that the service
  answers to the correction request. The correction request is sent only after the parse
  of the reply has failed with a \<^verbatim>\<open>JSONDecodeError\<close>; the source text \<open>code\<close> is no argument
  of its builder.
\<close>

theorem structured_stage_attempts:
  "(\<exists>evs.
      snd (run_classification_step e code model tr) = tr @ evs \<and>
      prefix evs
        (stage_events (texts e) (build_classification_prompt (texts e) code)
           CLASSIFICATION_JSON_TEMPLATE (model_or_default e model)
           (stage_raw e (build_classification_prompt (texts e) code) model tr)
           (stage_fixed_raw e (build_classification_prompt (texts e) code)
              CLASSIFICATION_JSON_TEMPLATE model tr)) \<and>
      (length evs \<le> 2 \<or>
       (\<exists>exc. json_loads e (stage_raw e (build_classification_prompt (texts e) code) model tr)
                = DecodeError exc)) \<and>
      parse_attempts evs \<le> 2) \<and>
   (\<exists>evs.
      snd (run_analysis_step e code model tr) = tr @ evs \<and>
      prefix evs
        (stage_events (texts e) (build_analysis_prompt (texts e) code)
           ANALYSIS_JSON_TEMPLATE (model_or_default e model)
           (stage_raw e (build_analysis_prompt (texts e) code) model tr)
           (stage_fixed_raw e (build_analysis_prompt (texts e) code)
              ANALYSIS_JSON_TEMPLATE model tr)) \<and>
      (length evs \<le> 2 \<or>
       (\<exists>exc. json_loads e (stage_raw e (build_analysis_prompt (texts e) code) model tr)
                = DecodeError exc)) \<and>
      parse_attempts evs \<le> 2)"
  unfolding run_classification_step_stage run_analysis_step_stage
  using structured_stage_trace prefix_parse_attempts by meson

theorem structured_stage_attempts_witness:
  "stage_raw demo_env (build_classification_prompt demo_texts ''bad;'') None [] = ''{broken'' \<and>
   stage_fixed_raw demo_env (build_classification_prompt demo_texts ''bad;'')
     CLASSIFICATION_JSON_TEMPLATE None [] = ''{broken'' \<and>
   json_loads demo_env ''{broken'' = DecodeError broken_error \<and>
   snd (run_classification_step demo_env ''bad;'' None []) =
     stage_events demo_texts (build_classification_prompt demo_texts ''bad;'')
       CLASSIFICATION_JSON_TEMPLATE ''m'' ''{broken'' ''{broken'' \<and>
   parse_attempts (snd (run_classification_step demo_env ''bad;'' None [])) = 2 \<and>
   parse_attempts (snd (run_classification_step demo_env ''bad;'' None [])) \<le> 2"
proof -
  have r: "stage_raw demo_env (build_classification_prompt demo_texts ''bad;'') None []
      = ''{broken''"
    "stage_fixed_raw demo_env (build_classification_prompt demo_texts ''bad;'')
       CLASSIFICATION_JSON_TEMPLATE None [] = ''{broken''"
    "json_loads demo_env ''{broken'' = DecodeError broken_error"
    by code_simp+
  have a: "snd (run_classification_step demo_env ''bad;'' None []) =
     stage_events demo_texts (build_classification_prompt demo_texts ''bad;'')
       CLASSIFICATION_JSON_TEMPLATE ''m'' ''{broken'' ''{broken''"
    by code_simp
  have b: "parse_attempts (snd (run_classification_step demo_env ''bad;'' None [])) = 2"
    by code_simp
  from structured_stage_attempts [of demo_env "''bad;''" None "[]"]
  have "parse_attempts (snd (run_classification_step demo_env ''bad;'' None [])) \<le> 2"
    by auto
  with r a b show ?thesis by simp
qed

text \<open>
  Claim C5, as stated: whenever both parses of a structured stage fail, the stage raises
  an error that carries both parse errors and both raw texts. The stage catches
  \<^verbatim>\<open>JSONDecodeError\<close> only. On a corrected reply of one hundred thousand opening
  brackets \<^verbatim>\<open>json.loads\<close> raises \<^verbatim>\<open>RecursionError\<close>; the stage does not catch it, and
  what it raises carries neither a parse error nor a raw text. In an environment where
  the reply to the classification request does not parse and the corrected reply is such
  a text, the classification stage sends its request, parses the reply, sends the
  correction request, parses the corrected reply and raises \<^verbatim>\<open>RecursionError\<close>:
\<close>

theorem correction_parse_raises_counterexample:
  "json_loads (deep_env ''A'') ''{broken'' = DecodeError broken_error \<and>
   json_loads (deep_env ''A'') deep_text = ParseRaised RecursionError \<and>
   run_classification_step (deep_env ''A'') ''bad;'' None [] =
     (Inl RecursionError,
      stage_events demo_texts (build_classification_prompt demo_texts ''bad;'')
        CLASSIFICATION_JSON_TEMPLATE ''m'' ''{broken'' deep_text)"
proof -
  have "second_parse_raises (deep_env ''A'') (build_classification_prompt demo_texts ''bad;'')
     CLASSIFICATION_JSON_TEMPLATE None [] ''{broken'' broken_error deep_text RecursionError"
    by (rule deep_second_parse_raises) (simp_all add: demo_system_prompts)
  then have "structured_stage (deep_env ''A'') (build_classification_prompt demo_texts ''bad;'')
          CLASSIFICATION_JSON_TEMPLATE ''Classification''
          (\<lambda>data. validate_classification (interpreter (deep_env ''A'')) data ''bad;'') None [] =
        (Inl RecursionError,
         [] @ stage_events (texts (deep_env ''A''))
                (build_classification_prompt demo_texts ''bad;'')
                CLASSIFICATION_JSON_TEMPLATE (model_or_default (deep_env ''A'') None)
                (strip ''{broken'') (strip deep_text))"
    by (rule second_parse_raises_stage)
  then show ?thesis
    unfolding run_classification_step_stage
    by (simp add: deep_env_fields model_or_default_def strip_broken strip_deep_text
        broken_not_deep)
qed

text \<open>
  Claim C5, amended. When the reply of a structured stage and the corrected reply both
  fail to parse with a \<^verbatim>\<open>JSONDecodeError\<close>, the stage raises a \<^verbatim>\<open>ValueError\<close> whose message
  holds both parse errors and both raw texts (\<open>still_invalid\<close>). When a parse raises
  another exception, the stage raises that exception as it is. Whatever a stage raises,
  \<^verbatim>\<open>process_file\<close> raises it; whatever \<^verbatim>\<open>process_file\<close> raises, the loop of \<^verbatim>\<open>main\<close>
  catches it, appends nothing to the results for this file and goes on with the next
  file. The summary counts and lists the results only, so the failed file is not among
  the scanned files. This is stated for the classification stage and for the analysis
  stage.
\<close>

theorem stage_failure_skips_file:
  "(both_parses_fail e (build_classification_prompt (texts e) code)
      CLASSIFICATION_JSON_TEMPLATE model tr r exc r2 exc2 \<longrightarrow>
      run_classification_step e code model tr =
        (Inl (still_invalid ''Classification'' exc exc2 (strip r) (strip r2)),
         tr @ stage_events (texts e) (build_classification_prompt (texts e) code)
                CLASSIFICATION_JSON_TEMPLATE (model_or_default e model) (strip r) (strip r2))) \<and>
   (both_parses_fail e (build_analysis_prompt (texts e) code)
      ANALYSIS_JSON_TEMPLATE model tr r exc r2 exc2 \<longrightarrow>
      run_analysis_step e code model tr =
        (Inl (still_invalid ''Analysis'' exc exc2 (strip r) (strip r2)),
         tr @ stage_events (texts e) (build_analysis_prompt (texts e) code)
                ANALYSIS_JSON_TEMPLATE (model_or_default e model) (strip r) (strip r2))) \<and>
   (\<exists>msg. still_invalid stage exc exc2 raw fixed_raw = ValueError msg \<and>
      sublist exc msg \<and> sublist exc2 msg \<and> sublist raw msg \<and> sublist fixed_raw msg) \<and>
   (first_parse_raises e (build_classification_prompt (texts e) code) model tr r x \<longrightarrow>
      run_classification_step e code model tr =
        (Inl x,
         tr @ [LlmRequest (fst (build_classification_prompt (texts e) code))
                 (snd (build_classification_prompt (texts e) code)) (model_or_default e model),
               JsonParse (strip r)])) \<and>
   (second_parse_raises e (build_classification_prompt (texts e) code)
      CLASSIFICATION_JSON_TEMPLATE model tr r exc r2 x \<longrightarrow>
      run_classification_step e code model tr =
        (Inl x,
         tr @ stage_events (texts e) (build_classification_prompt (texts e) code)
                CLASSIFICATION_JSON_TEMPLATE (model_or_default e model) (strip r) (strip r2))) \<and>
   (first_parse_raises e (build_analysis_prompt (texts e) code) model tr r x \<longrightarrow>
      run_analysis_step e code model tr =
        (Inl x,
         tr @ [LlmRequest (fst (build_analysis_prompt (texts e) code))
                 (snd (build_analysis_prompt (texts e) code)) (model_or_default e model),
               JsonParse (strip r)])) \<and>
   (second_parse_raises e (build_analysis_prompt (texts e) code)
      ANALYSIS_JSON_TEMPLATE model tr r exc r2 x \<longrightarrow>
      run_analysis_step e code model tr =
        (Inl x,
         tr @ stage_events (texts e) (build_analysis_prompt (texts e) code)
                ANALYSIS_JSON_TEMPLATE (model_or_default e model) (strip r) (strip r2))) \<and>
   (read_text e tr0 p = Inr code \<and>
    summary_block e code model out (path_stem p) (new_run_logger (path_str p) model fl)
      (tr0 @ [MakeDirs out, MakeDirs log]) = (Inr (summary_text, rl1), tr) \<and>
    \<not> no_classification fl \<and>
    run_classification_step e code model tr = (Inl x, tr')
    \<longrightarrow> process_file e p out log model fl False tr0 = (Inl x, tr')) \<and>
   (read_text e tr0 p = Inr code \<and>
    summary_block e code model out (path_stem p) (new_run_logger (path_str p) model fl)
      (tr0 @ [MakeDirs out, MakeDirs log]) = (Inr (summary_text, rl1), tr1) \<and>
    classification_block e code model fl out (path_stem p) rl1 tr1 =
      (Inr (classification, rl2), tr) \<and>
    \<not> no_analysis fl \<and>
    run_analysis_step e code model tr = (Inl x, tr')
    \<longrightarrow> process_file e p out log model fl False tr0 = (Inl x, tr')) \<and>
   (process_file e p out log model fl dry tr0 = (Inl x, tr') \<longrightarrow>
      run_files e out log model fl dry (p # rest) results tr0 =
      run_files e out log model fl dry rest results tr') \<and>
   (aggregate_results run_id now results = Inr s \<longrightarrow>
      ag_scanned_files s = length results \<and> ag_files s = results)"
proof (intro conjI impI)
  assume "both_parses_fail e (build_classification_prompt (texts e) code)
      CLASSIFICATION_JSON_TEMPLATE model tr r exc r2 exc2"
  then show "run_classification_step e code model tr =
        (Inl (still_invalid ''Classification'' exc exc2 (strip r) (strip r2)),
         tr @ stage_events (texts e) (build_classification_prompt (texts e) code)
                CLASSIFICATION_JSON_TEMPLATE (model_or_default e model) (strip r) (strip r2))"
    unfolding run_classification_step_stage by (rule both_parses_fail_stage)
next
  assume "both_parses_fail e (build_analysis_prompt (texts e) code)
      ANALYSIS_JSON_TEMPLATE model tr r exc r2 exc2"
  then show "run_analysis_step e code model tr =
        (Inl (still_invalid ''Analysis'' exc exc2 (strip r) (strip r2)),
         tr @ stage_events (texts e) (build_analysis_prompt (texts e) code)
                ANALYSIS_JSON_TEMPLATE (model_or_default e model) (strip r) (strip r2))"
    unfolding run_analysis_step_stage by (rule both_parses_fail_stage)
next
  show "\<exists>msg. still_invalid stage exc exc2 raw fixed_raw = ValueError msg \<and>
      sublist exc msg \<and> sublist exc2 msg \<and> sublist raw msg \<and> sublist fixed_raw msg"
    by (rule still_invalid_carries)
next
  assume "first_parse_raises e (build_classification_prompt (texts e) code) model tr r x"
  then show "run_classification_step e code model tr =
        (Inl x,
         tr @ [LlmRequest (fst (build_classification_prompt (texts e) code))
                 (snd (build_classification_prompt (texts e) code)) (model_or_default e model),
               JsonParse (strip r)])"
    unfolding run_classification_step_stage by (rule first_parse_raises_stage)
next
  assume "second_parse_raises e (build_classification_prompt (texts e) code)
      CLASSIFICATION_JSON_TEMPLATE model tr r exc r2 x"
  then show "run_classification_step e code model tr =
        (Inl x,
         tr @ stage_events (texts e) (build_classification_prompt (texts e) code)
                CLASSIFICATION_JSON_TEMPLATE (model_or_default e model) (strip r) (strip r2))"
    unfolding run_classification_step_stage by (rule second_parse_raises_stage)
next
  assume "first_parse_raises e (build_analysis_prompt (texts e) code) model tr r x"
  then show "run_analysis_step e code model tr =
        (Inl x,
         tr @ [LlmRequest (fst (build_analysis_prompt (texts e) code))
                 (snd (build_analysis_prompt (texts e) code)) (model_or_default e model),
               JsonParse (strip r)])"
    unfolding run_analysis_step_stage by (rule first_parse_raises_stage)
next
  assume "second_parse_raises e (build_analysis_prompt (texts e) code)
      ANALYSIS_JSON_TEMPLATE model tr r exc r2 x"
  then show "run_analysis_step e code model tr =
        (Inl x,
         tr @ stage_events (texts e) (build_analysis_prompt (texts e) code)
                ANALYSIS_JSON_TEMPLATE (model_or_default e model) (strip r) (strip r2))"
    unfolding run_analysis_step_stage by (rule second_parse_raises_stage)
next
  assume "read_text e tr0 p = Inr code \<and>
    summary_block e code model out (path_stem p) (new_run_logger (path_str p) model fl)
      (tr0 @ [MakeDirs out, MakeDirs log]) = (Inr (summary_text, rl1), tr) \<and>
    \<not> no_classification fl \<and>
    run_classification_step e code model tr = (Inl x, tr')"
  then show "process_file e p out log model fl False tr0 = (Inl x, tr')"
    using process_file_classification_fails by blast
next
  assume "read_text e tr0 p = Inr code \<and>
    summary_block e code model out (path_stem p) (new_run_logger (path_str p) model fl)
      (tr0 @ [MakeDirs out, MakeDirs log]) = (Inr (summary_text, rl1), tr1) \<and>
    classification_block e code model fl out (path_stem p) rl1 tr1 =
      (Inr (classification, rl2), tr) \<and>
    \<not> no_analysis fl \<and>
    run_analysis_step e code model tr = (Inl x, tr')"
  then show "process_file e p out log model fl False tr0 = (Inl x, tr')"
    using process_file_analysis_fails by blast
next
  assume "process_file e p out log model fl dry tr0 = (Inl x, tr')"
  then show "run_files e out log model fl dry (p # rest) results tr0 =
      run_files e out log model fl dry rest results tr'"
    by (rule run_files_failed)
next
  assume "aggregate_results run_id now results = Inr s"
  then show "ag_scanned_files s = length results" "ag_files s = results"
    using aggregate_results_files by blast+
qed

theorem stage_failure_skips_file_witness:
  "both_parses_fail demo_env (build_classification_prompt (texts demo_env) ''bad;'')
     CLASSIFICATION_JSON_TEMPLATE None
     [MakeDirs [''out'', ''r1''], MakeDirs [''logs'', ''r1''],
      LlmRequest ''S'' ''summarize: bad;'' ''m'',
      WriteFile [''out'', ''r1'', ''a_summary.json'']
        (JsonText (PDict [(''summary'', PStr ''A block.'')]))]
     ''{broken'' broken_error ''{broken'' broken_error \<and>
   fst (process_file demo_env [''sql'', ''a.sql''] [''out'', ''r1''] [''logs'', ''r1''] None
          demo_flags False []) =
     Inl (still_invalid ''Classification'' broken_error broken_error
            ''{broken'' ''{broken'') \<and>
   map fr_path
     (fst (run_files demo_env [''out'', ''r1''] [''logs'', ''r1''] None demo_flags False
             [[''sql'', ''a.sql''], [''sql'', ''b.sql'']] [] [])) = [''/sql/b.sql''] \<and>
   both_parses_fail demo_env (build_analysis_prompt (texts demo_env) ''half;'')
     ANALYSIS_JSON_TEMPLATE None
     [MakeDirs [''out'', ''r1''], MakeDirs [''logs'', ''r1''],
      LlmRequest ''S'' ''summarize: half;'' ''m'',
      WriteFile [''out'', ''r1'', ''c_summary.json'']
        (JsonText (PDict [(''summary'', PStr ''A block.'')])),
      LlmRequest ''C'' ''classify: half;'' ''m'',
      JsonParse ''CLS'',
      WriteFile [''out'', ''r1'', ''c_classification.json'']
        (JsonText (PDict demo_classification))]
     ''{broken'' broken_error ''{broken'' broken_error \<and>
   fst (process_file demo_env [''sql'', ''c.sql''] [''out'', ''r1''] [''logs'', ''r1''] None
          demo_flags False []) =
     Inl (still_invalid ''Analysis'' broken_error broken_error
            ''{broken'' ''{broken'') \<and>
   second_parse_raises (deep_env ''A'') (build_classification_prompt demo_texts ''bad;'')
     CLASSIFICATION_JSON_TEMPLATE None [] ''{broken'' broken_error deep_text
     RecursionError \<and>
   fst (run_classification_step (deep_env ''A'') ''bad;'' None []) = Inl RecursionError \<and>
   first_parse_raises (deep_env ''A'') (build_analysis_prompt demo_texts ''bad;'') None []
     deep_text RecursionError \<and>
   fst (run_analysis_step (deep_env ''A'') ''bad;'' None []) = Inl RecursionError \<and>
   first_parse_raises (deep_env ''C'') (build_classification_prompt demo_texts ''bad;'') None []
     deep_text RecursionError \<and>
   fst (run_classification_step (deep_env ''C'') ''bad;'' None []) = Inl RecursionError \<and>
   second_parse_raises (deep_env ''C'') (build_analysis_prompt demo_texts ''bad;'')
     ANALYSIS_JSON_TEMPLATE None [] ''{broken'' broken_error deep_text
     RecursionError \<and>
   fst (run_analysis_step (deep_env ''C'') ''bad;'' None []) = Inl RecursionError \<and>
   (\<exists>s. aggregate_results ''r1'' ''T2'' [] = Inr s \<and> ag_scanned_files s = 0)"
proof -
  let ?out = "[''out'', ''r1'']" and ?log = "[''logs'', ''r1'']"
  let ?a = "[''sql'', ''a.sql'']" and ?b = "[''sql'', ''b.sql'']" and ?c = "[''sql'', ''c.sql'']"
  let ?rl1 = "\<lambda>file. \<lparr>input_file = ''/sql/'' @ file @ ''.sql'', rl_model = None, rl_flags = demo_flags,
           steps = [(''summary'', ''started''), (''summary'', ''success'')],
           outputs = [(''summary_json'', ''/out/r1/'' @ file @ ''_summary.json'')]\<rparr>"
  let ?tr1 = "\<lambda>file code. [MakeDirs ?out, MakeDirs ?log,
      LlmRequest ''S'' (''summarize: '' @ code) ''m'',
      WriteFile [''out'', ''r1'', file @ ''_summary.json'']
        (JsonText (PDict [(''summary'', PStr ''A block.'')]))]"
  let ?rl2 = "(?rl1 ''c'')\<lparr>steps := steps (?rl1 ''c'') @
                 [(''classification'', ''started''), (''classification'', ''success'')],
               outputs := outputs (?rl1 ''c'') @
                 [(''classification_json'', ''/out/r1/c_classification.json'')]\<rparr>"
  let ?tr2 = "?tr1 ''c'' ''half;'' @
     [LlmRequest ''C'' ''classify: half;'' ''m'', JsonParse ''CLS'',
      WriteFile [''out'', ''r1'', ''c_classification.json'']
        (JsonText (PDict demo_classification))]"
  let ?ev = "broken_error" and ?broken = "''{broken''"
  have ra: "read_text demo_env [] ?a = Inr ''bad;''"
    and rc: "read_text demo_env [] ?c = Inr ''half;''"
    by code_simp+
  have sa: "summary_block demo_env ''bad;'' None ?out (path_stem ?a)
        (new_run_logger (path_str ?a) None demo_flags) ([] @ [MakeDirs ?out, MakeDirs ?log]) =
        (Inr (''A block.'', ?rl1 ''a''), ?tr1 ''a'' ''bad;'')"
    by code_simp
  have sc: "summary_block demo_env ''half;'' None ?out (path_stem ?c)
        (new_run_logger (path_str ?c) None demo_flags) ([] @ [MakeDirs ?out, MakeDirs ?log]) =
        (Inr (''A block.'', ?rl1 ''c''), ?tr1 ''c'' ''half;'')"
    by code_simp
  have cc: "classification_block demo_env ''half;'' None demo_flags ?out (path_stem ?c)
        (?rl1 ''c'') (?tr1 ''c'' ''half;'') = (Inr (demo_classification, ?rl2), ?tr2)"
    by code_simp
  have fl: "\<not> no_classification demo_flags" "\<not> no_analysis demo_flags"
    by code_simp+
  have fa: "both_parses_fail demo_env (build_classification_prompt (texts demo_env) ''bad;'')
     CLASSIFICATION_JSON_TEMPLATE None (?tr1 ''a'' ''bad;'') ?broken ?ev ?broken ?ev"
    by code_simp
  have fc: "both_parses_fail demo_env (build_analysis_prompt (texts demo_env) ''half;'')
     ANALYSIS_JSON_TEMPLATE None ?tr2 ?broken ?ev ?broken ?ev"
    by code_simp
  let ?erra = "still_invalid ''Classification'' ?ev ?ev (strip ?broken) (strip ?broken)"
  let ?errc = "still_invalid ''Analysis'' ?ev ?ev (strip ?broken) (strip ?broken)"
  let ?tra = "?tr1 ''a'' ''bad;'' @ stage_events (texts demo_env)
       (build_classification_prompt (texts demo_env) ''bad;'')
       CLASSIFICATION_JSON_TEMPLATE (model_or_default demo_env None) (strip ?broken) (strip ?broken)"
  let ?trc = "?tr2 @ stage_events (texts demo_env)
       (build_analysis_prompt (texts demo_env) ''half;'')
       ANALYSIS_JSON_TEMPLATE (model_or_default demo_env None) (strip ?broken) (strip ?broken)"
  have rest: "map fr_path (fst (run_files demo_env ?out ?log None demo_flags False [?b] [] ?tra))
      = [''/sql/b.sql'']"
    by code_simp
  have ag: "aggregate_results ''r1'' ''T2'' [] = Inr
     \<lparr>ag_run_id = ''r1'', ag_timestamp_utc = ''T2'', ag_scanned_files = 0,
      ag_overall_risk_score = 0, ag_red_flags = [], ag_files = [], ag_checklist = []\<rparr>"
    by code_simp
  note A = stage_failure_skips_file [where e = demo_env and ?tr0.0 = "[]" and p = ?a
      and code = "''bad;''" and model = None and out = ?out and log = ?log and fl = demo_flags
      and summary_text = "''A block.''" and ?rl1.0 = "?rl1 ''a''" and tr = "?tr1 ''a'' ''bad;''"
      and r = ?broken and exc = ?ev and ?r2.0 = ?broken and ?exc2.0 = ?ev
      and x = ?erra and tr' = ?tra and dry = False
      and rest = "[?b]" and results = "[]" and run_id = "''r1''" and now = "''T2''"
      and s = "\<lparr>ag_run_id = ''r1'', ag_timestamp_utc = ''T2'', ag_scanned_files = 0,
      ag_overall_risk_score = 0, ag_red_flags = [], ag_files = [], ag_checklist = []\<rparr>"]
  note C = stage_failure_skips_file [where e = demo_env and ?tr0.0 = "[]" and p = ?c
      and code = "''half;''" and model = None and out = ?out and log = ?log and fl = demo_flags
      and summary_text = "''A block.''" and ?rl1.0 = "?rl1 ''c''" and ?tr1.0 = "?tr1 ''c'' ''half;''"
      and classification = demo_classification and ?rl2.0 = ?rl2 and tr = ?tr2
      and r = ?broken and exc = ?ev and ?r2.0 = ?broken and ?exc2.0 = ?ev
      and x = ?errc and tr' = ?trc]
  note D = stage_failure_skips_file [where code = "''bad;''" and model = None
      and tr = "[]" and r = ?broken and exc = ?ev and ?r2.0 = deep_text and x = RecursionError]
  note E = stage_failure_skips_file [where code = "''bad;''" and model = None
      and tr = "[]" and r = deep_text and x = RecursionError]
  have d1: "second_parse_raises (deep_env ''A'')
      (build_classification_prompt demo_texts ''bad;'')
      CLASSIFICATION_JSON_TEMPLATE None [] ?broken ?ev deep_text RecursionError"
    and d2: "second_parse_raises (deep_env ''C'') (build_analysis_prompt demo_texts ''bad;'')
      ANALYSIS_JSON_TEMPLATE None [] ?broken ?ev deep_text RecursionError"
    by (rule deep_second_parse_raises; simp add: demo_system_prompts)+
  have e1: "first_parse_raises (deep_env ''A'') (build_analysis_prompt demo_texts ''bad;'')
      None [] deep_text RecursionError"
    and e2: "first_parse_raises (deep_env ''C'')
      (build_classification_prompt demo_texts ''bad;'') None [] deep_text RecursionError"
    by (rule deep_first_parse_raises; simp add: demo_system_prompts)+
  from A fa have
    step_a: "run_classification_step demo_env ''bad;'' None (?tr1 ''a'' ''bad;'') = (Inl ?erra, ?tra)"
    by blast
  with A ra sa fl have
    pa: "process_file demo_env ?a ?out ?log None demo_flags False [] = (Inl ?erra, ?tra)"
    by blast
  with A have
    la: "run_files demo_env ?out ?log None demo_flags False [?a, ?b] [] [] =
             run_files demo_env ?out ?log None demo_flags False [?b] [] ?tra"
    by blast
  from C fc have
    step_c: "run_analysis_step demo_env ''half;'' None ?tr2 = (Inl ?errc, ?trc)"
    by blast
  with C rc sc cc fl have
    pc: "process_file demo_env ?c ?out ?log None demo_flags False [] = (Inl ?errc, ?trc)"
    by blast
  from D [where e = "deep_env ''A''", unfolded deep_env_fields(1)] d1 have
    sd1: "fst (run_classification_step (deep_env ''A'') ''bad;'' None []) = Inl RecursionError"
    by simp
  from D [where e = "deep_env ''C''", unfolded deep_env_fields(1)] d2 have
    sd2: "fst (run_analysis_step (deep_env ''C'') ''bad;'' None []) = Inl RecursionError"
    by simp
  from E [where e = "deep_env ''A''", unfolded deep_env_fields(1)] e1 have
    se1: "fst (run_analysis_step (deep_env ''A'') ''bad;'' None []) = Inl RecursionError"
    by simp
  from E [where e = "deep_env ''C''", unfolded deep_env_fields(1)] e2 have
    se2: "fst (run_classification_step (deep_env ''C'') ''bad;'' None []) = Inl RecursionError"
    by simp
  from A ag have sf: "\<exists>s. aggregate_results ''r1'' ''T2'' [] = Inr s \<and> ag_scanned_files s = 0"
    by simp
  have st: "strip ?broken = ?broken" by (rule strip_broken)
  show ?thesis
    using fa fc pa pc la rest sf sd1 sd2 se1 se2 d1 d2 e1 e2
    unfolding st by simp
qed

subsection \<open>Dry runs\<close>

text \<open>
  Claim C2 says that a dry run writes nothing to disk and sends no request. The per-file
  part of a dry run does neither (\<open>process_file_dry_run\<close>, \<open>run_files_dry_run\<close>), but
  \<^verbatim>\<open>main\<close> goes on to aggregate the stub results and writes \<^verbatim>\<open>summary.json\<close> and
  \<^verbatim>\<open>summary.md\<close> into the run's output directory, which it creates (\<open>main_dry_run\<close>); the
  help text of the flag and the last line printed say that no files are written. On the
  example environment, with two files found:
\<close>

theorem dry_run_writes_summary:
  "main demo_env (demo_args True) [] =
     (Inr 0,
      [MakeDirs [''out'', ''r1''],
       WriteFile [''out'', ''r1'', ''summary.json'']
         (SummaryJson
            \<lparr>ag_run_id = ''r1'', ag_timestamp_utc = ''T2'', ag_scanned_files = 2,
             ag_overall_risk_score = 0, ag_red_flags = [],
             ag_files = [dry_run_result [''sql'', ''a.sql''], dry_run_result [''sql'', ''b.sql'']],
             ag_checklist = []\<rparr>),
       MakeDirs [''out'', ''r1''],
       WriteFile [''out'', ''r1'', ''summary.md'']
         (SummaryMarkdown
            \<lparr>ag_run_id = ''r1'', ag_timestamp_utc = ''T2'', ag_scanned_files = 2,
             ag_overall_risk_score = 0, ag_red_flags = [],
             ag_files = [dry_run_result [''sql'', ''a.sql''], dry_run_result [''sql'', ''b.sql'']],
             ag_checklist = []\<rparr>)])"
proof -
  have "arg_dry_run (demo_args True)"
    and "path_exists demo_env (resolve demo_env (arg_path (demo_args True)))"
    and "discover_files demo_env (resolve demo_env (arg_path (demo_args True)))
           (arg_glob (demo_args True)) \<noteq> []"
    by (simp_all add: demo_args_def demo_env_def)
  from main_dry_run [OF this, of "[]"] show ?thesis
    by (simp add: run_output_dir_of_def dry_run_summary_def readable_files_def demo_args_def
        demo_env_def or_none_def child_def)
qed

end
